theory Spec2Isabelle
  imports Complex_Main
begin

section \<open>The description world of desc.world.ts\<close>

text \<open>
  The class \<open>DescWorld\<close> translates a textual description (peptide sequences and cross
  links) into residues, sockets and balls, and hands each of them to a collaborator
  (\<open>threeWorld\<close>). The embedding follows the source line by line:
  \<^item> JavaScript numbers are IEEE binary64 values (\<open>double\<close> below): every sum, product
    and quotient of the source is rounded; array indices and parsed residue numbers are
    \<open>nat\<close>;
  \<^item> strings are \<open>string\<close>, one \<open>char\<close> per UTF-16 code unit of the source string;
  \<^item> a thrown \<open>TypeError\<close> is a value; the mutations done before it stay in the world;
  \<^item> the calls received by the collaborator are kept as a log, oldest first; the
    collaborator itself is external and its three methods are taken to return.
\<close>

subsection \<open>Numbers\<close>

text \<open>
  A JavaScript number: a finite binary64 value, written as the real number it denotes,
  an infinity or \<open>NaN\<close>. The two zeros are not told apart (the source never divides by
  a zero, and a comparison does not see the sign).
\<close>

datatype double = Finite real | PosInf | NegInf | NaN

text \<open>The exponent \<open>e\<close> with \<open>2^e \<le> x < 2^(e + 1)\<close>, for a positive \<open>x\<close>.\<close>

function binade :: "real \<Rightarrow> int" where
  "binade x =
     (if x \<le> 0 then 0
      else if 2 \<le> x then binade (x / 2) + 1
      else if x < 1 then binade (2 * x) - 1
      else 0)"
  by pat_completeness auto
termination
proof (relation "measure (\<lambda>x. 2 * nat \<lceil>1 / x\<rceil> + nat \<lfloor>x\<rfloor>)", goal_cases)
  case 1
  then show ?case by simp
next
  case (2 x)
  then have "\<lceil>1 / (x / 2)\<rceil> = 1" "\<lceil>1 / x\<rceil> = 1"
    by (simp_all add: ceiling_eq_iff field_simps)
  moreover from 2 have "\<lfloor>x / 2\<rfloor> < \<lfloor>x\<rfloor>" "0 < \<lfloor>x\<rfloor>"
    by linarith+
  ultimately show ?case by simp
next
  case (3 x)
  then have x: "0 < x" "x < 1" by simp_all
  show ?case
  proof (cases "x < 1 / 2")
    case True
    with x have "\<lfloor>2 * x\<rfloor> = 0" "\<lfloor>x\<rfloor> = 0" by (simp_all add: floor_eq_iff)
    moreover have "\<lceil>1 / (2 * x)\<rceil> < \<lceil>1 / x\<rceil>"
    proof -
      from x True have "1 / (2 * x) \<le> 1 / x - 1" by (simp add: field_simps)
      then have "\<lceil>1 / (2 * x)\<rceil> \<le> \<lceil>1 / x - 1\<rceil>" by (rule ceiling_mono)
      then show ?thesis by simp
    qed
    moreover from x have "0 < \<lceil>1 / x\<rceil>" by simp
    ultimately show ?thesis by simp
  next
    case False
    with x have "\<lfloor>2 * x\<rfloor> = 1" "\<lfloor>x\<rfloor> = 0" by (simp_all add: floor_eq_iff)
    moreover from x False have "\<lceil>1 / (2 * x)\<rceil> = 1" "\<lceil>1 / x\<rceil> = 2"
      by (simp_all add: ceiling_eq_iff field_simps)
    ultimately show ?thesis by simp
  qed
qed

text \<open>Rounding to the nearest integer, a tie going to the even one.\<close>

definition roundEven :: "real \<Rightarrow> int" where
  "roundEven y =
     (let f = \<lfloor>y\<rfloor>; d = y - of_int f
      in if d < 1 / 2 then f else if 1 / 2 < d then f + 1 else if even f then f else f + 1)"

text \<open>
  The distance between neighbouring binary64 values around \<open>x\<close>: 53 significant bits,
  and the fixed step \<open>2^-1074\<close> of the subnormal range below \<open>2^-1022\<close>.
\<close>

definition quantum :: "real \<Rightarrow> real" where
  "quantum x = 2 powi (max (binade \<bar>x\<bar>) (- 1022) - 52)"

text \<open>
  The binary64 value of an exact result: round to nearest, ties to even; a result that
  rounds to \<open>2^1024\<close> or beyond overflows to an infinity.
\<close>

definition round64 :: "real \<Rightarrow> double" where
  "round64 x =
     (let r = of_int (roundEven (x / quantum x)) * quantum x
      in if 2 powi 1024 \<le> \<bar>r\<bar> then (if 0 < x then PosInf else NegInf) else Finite r)"

text \<open>The operators \<open>+\<close>, \<open>*\<close>, \<open>/\<close> and \<open><\<close> of JavaScript on numbers.\<close>

fun dadd :: "double \<Rightarrow> double \<Rightarrow> double" where
  "dadd NaN b = NaN"
| "dadd a NaN = NaN"
| "dadd PosInf NegInf = NaN"
| "dadd NegInf PosInf = NaN"
| "dadd PosInf b = PosInf"
| "dadd NegInf b = NegInf"
| "dadd a PosInf = PosInf"
| "dadd a NegInf = NegInf"
| "dadd (Finite a) (Finite b) = round64 (a + b)"

fun dmul :: "double \<Rightarrow> double \<Rightarrow> double" where
  "dmul NaN b = NaN"
| "dmul a NaN = NaN"
| "dmul (Finite a) (Finite b) = round64 (a * b)"
| "dmul (Finite a) PosInf = (if a = 0 then NaN else if 0 < a then PosInf else NegInf)"
| "dmul (Finite a) NegInf = (if a = 0 then NaN else if 0 < a then NegInf else PosInf)"
| "dmul PosInf (Finite b) = (if b = 0 then NaN else if 0 < b then PosInf else NegInf)"
| "dmul NegInf (Finite b) = (if b = 0 then NaN else if 0 < b then NegInf else PosInf)"
| "dmul PosInf PosInf = PosInf"
| "dmul PosInf NegInf = NegInf"
| "dmul NegInf PosInf = NegInf"
| "dmul NegInf NegInf = PosInf"

text \<open>A zero divisor is taken as \<open>+0\<close>; the source only ever divides by the literal 2.\<close>

fun ddiv :: "double \<Rightarrow> double \<Rightarrow> double" where
  "ddiv NaN b = NaN"
| "ddiv a NaN = NaN"
| "ddiv (Finite a) (Finite b) =
     (if b = 0 then (if a = 0 then NaN else if 0 < a then PosInf else NegInf)
      else round64 (a / b))"
| "ddiv (Finite a) b = Finite 0"
| "ddiv PosInf (Finite b) = (if 0 \<le> b then PosInf else NegInf)"
| "ddiv NegInf (Finite b) = (if 0 \<le> b then NegInf else PosInf)"
| "ddiv a b = NaN"

fun dless :: "double \<Rightarrow> double \<Rightarrow> bool" where
  "dless NaN b = False"
| "dless a NaN = False"
| "dless (Finite a) (Finite b) = (a < b)"
| "dless a NegInf = False"
| "dless PosInf b = False"
| "dless a b = True"

text \<open>A real number that is a binary64 value: an operation with this result does not round.\<close>

definition exact :: "real \<Rightarrow> bool" where
  "exact v = (round64 v = Finite v)"

subsection \<open>Geometry\<close>

record vec3 =
  vx :: double
  vy :: double
  vz :: double

text \<open>\<open>startPos.clone().setX(v)\<close>: a fresh vector, only x replaced.\<close>

definition setX :: "vec3 \<Rightarrow> double \<Rightarrow> vec3" where
  "setX p v = p\<lparr>vx := v\<rparr>"

text \<open>
  \<open>THREE.Matrix4\<close> belongs to an external library. The model keeps the translation
  column (what \<open>setPosition\<close> writes) as a vector and the upper-left block as a symbolic
  value: \<open>Initial\<close> is the block a scratch matrix of the constants module starts with,
  \<open>QuarterTurn\<close> what \<open>makeRotationAxis(normalVecZ, Math.PI / 2)\<close> writes, \<open>Times\<close> a
  product.
\<close>

datatype linear = Initial | QuarterTurn | Times linear linear

record matrix4 =
  position :: vec3
  block :: linear

definition setPosition :: "matrix4 \<Rightarrow> vec3 \<Rightarrow> matrix4" where
  "setPosition m p = m\<lparr>position := p\<rparr>"

definition zero3 :: vec3 where
  "zero3 = \<lparr>vx = Finite 0, vy = Finite 0, vz = Finite 0\<rparr>"

text \<open>\<open>makeRotationAxis\<close> overwrites the whole matrix: a rotation, no translation.\<close>

definition makeRotationAxis :: matrix4 where
  "makeRotationAxis = \<lparr>position = zero3, block = QuarterTurn\<rparr>"

text \<open>
  \<open>multiplyMatrices(a, b)\<close> is only ever called with the rotation just made as \<open>b\<close>,
  whose translation is zero: the product then has the translation of \<open>a\<close>.
\<close>

definition multiplyMatrices :: "matrix4 \<Rightarrow> matrix4 \<Rightarrow> matrix4" where
  "multiplyMatrices a b = \<lparr>position = position a, block = Times (block a) (block b)\<rparr>"

text \<open>
  The constants module is not part of the sources at hand: its four lengths are
  parameters of the model.
\<close>

record constants =
  residueRadius :: double
  socketRadius :: double
  socketLength :: double
  ballRadius :: double

subsection \<open>Primitives\<close>

text \<open>
  Identifiers come from \<open>nanoid(8)\<close>, an external generator of unique strings; the model
  numbers them in the order they are drawn.
\<close>

type_synonym ident = nat

record residue =
  r_id :: ident
  r_name :: string
  r_radius :: double
  r_pos :: vec3

text \<open>
  The \<open>matrix\<close> field of a socket or a ball is a reference to one of the shared scratch
  matrices of the constants module, not a copy.
\<close>

datatype matrixRef = TempMatrix1 | TempMatrix2 | TempMultiMatrix1

record socket =
  s_id :: ident
  s_residueId :: ident
  s_radius :: double
  s_length :: double
  s_matrix :: matrixRef
  s_isBond :: bool

record ball =
  b_id :: ident
  b_socket1Id :: ident
  b_socket2Id :: ident
  b_radius :: double
  b_matrix :: matrixRef

text \<open>
  A call received by the collaborator. For a socket and a ball the call also records
  what the referenced scratch matrix holds at that moment.
\<close>

datatype event =
  AddResidue residue
| AddSocket socket matrix4
| AddBall ball matrix4

subsection \<open>State\<close>

record world =
  peptides :: "string \<Rightarrow> residue list option"
  balls :: "ball list"
  threeWorld :: "event list"
  nextID :: nat
  tempMatrix1 :: matrix4
  tempMatrix2 :: matrix4
  tempMultiMatrix1 :: matrix4

definition DescWorld :: "matrix4 \<Rightarrow> matrix4 \<Rightarrow> matrix4 \<Rightarrow> world" where
  "DescWorld m1 m2 mm =
     \<lparr>peptides = Map.empty, balls = [], threeWorld = [], nextID = 0,
      tempMatrix1 = m1, tempMatrix2 = m2, tempMultiMatrix1 = mm\<rparr>"

definition newID :: "world \<Rightarrow> ident \<times> world" where
  "newID w = (nextID w, w\<lparr>nextID := Suc (nextID w)\<rparr>)"

definition deref :: "world \<Rightarrow> matrixRef \<Rightarrow> matrix4" where
  "deref w r = (case r of TempMatrix1 \<Rightarrow> tempMatrix1 w
                | TempMatrix2 \<Rightarrow> tempMatrix2 w
                | TempMultiMatrix1 \<Rightarrow> tempMultiMatrix1 w)"

definition addResidue :: "residue \<Rightarrow> world \<Rightarrow> world" where
  "addResidue r w = w\<lparr>threeWorld := threeWorld w @ [AddResidue r]\<rparr>"

definition addSocket :: "socket \<Rightarrow> world \<Rightarrow> world" where
  "addSocket s w = w\<lparr>threeWorld := threeWorld w @ [AddSocket s (deref w (s_matrix s))]\<rparr>"

definition addBall :: "ball \<Rightarrow> world \<Rightarrow> world" where
  "addBall b w = w\<lparr>threeWorld := threeWorld w @ [AddBall b (deref w (b_matrix b))]\<rparr>"

subsection \<open>addPeptide\<close>

text \<open>
  The expression
  \<open>tempMultiMatrix1.multiplyMatrices(tempMatrix1.setPosition(p), tempMatrix2.makeRotationAxis(normalVecZ, Math.PI / 2))\<close>:
  three scratch matrices are written, the result is \<open>tempMultiMatrix1\<close> itself.
\<close>

definition rotatedAt :: "vec3 \<Rightarrow> world \<Rightarrow> matrixRef \<times> world" where
  "rotatedAt p w =
     (let w1 = w\<lparr>tempMatrix1 := setPosition (tempMatrix1 w) p\<rparr>;
          w2 = w1\<lparr>tempMatrix2 := makeRotationAxis\<rparr>;
          w3 = w2\<lparr>tempMultiMatrix1 := multiplyMatrices (tempMatrix1 w2) (tempMatrix2 w2)\<rparr>
      in (TempMultiMatrix1, w3))"

text \<open>\<open>tempMatrix1.setPosition(p)\<close>: the result is \<open>tempMatrix1\<close> itself.\<close>

definition placedAt :: "vec3 \<Rightarrow> world \<Rightarrow> matrixRef \<times> world" where
  "placedAt p w = (TempMatrix1, w\<lparr>tempMatrix1 := setPosition (tempMatrix1 w) p\<rparr>)"

text \<open>The branch \<open>if (prevResidue)\<close> of the loop body, lines 93 to 102.\<close>

definition connect :: "constants \<Rightarrow> vec3 \<Rightarrow> residue \<Rightarrow> residue \<Rightarrow> world \<Rightarrow> world" where
  "connect K startPos prevResidue res w =
     (let socket1X = dadd (dadd (vx (r_pos prevResidue)) (residueRadius K))
                          (ddiv (socketLength K) (Finite 2));
          (id1, w1) = newID w;
          (m1, w2) = rotatedAt (setX startPos socket1X) w1;
          socket1 = \<lparr>s_id = id1, s_residueId = r_id prevResidue, s_radius = socketRadius K,
                     s_length = socketLength K, s_matrix = m1, s_isBond = False\<rparr>;
          w3 = addSocket socket1 w2;
          socket2X = dadd (dadd socket1X (socketLength K)) (dmul (ballRadius K) (Finite 2));
          (id2, w4) = newID w3;
          (m2, w5) = rotatedAt (setX startPos socket2X) w4;
          socket2 = \<lparr>s_id = id2, s_residueId = r_id res, s_radius = socketRadius K,
                     s_length = socketLength K, s_matrix = m2, s_isBond = False\<rparr>;
          w6 = addSocket socket2 w5;
          ballX = dadd (dadd socket1X (ddiv (socketLength K) (Finite 2))) (ballRadius K);
          (id3, w7) = newID w6;
          (m3, w8) = placedAt (setX startPos ballX) w7;
          bl = \<lparr>b_id = id3, b_socket1Id = s_id socket1, b_socket2Id = s_id socket2,
                b_radius = ballRadius K, b_matrix = m3\<rparr>;
          w9 = addBall bl w8
      in w9\<lparr>balls := balls w9 @ [bl]\<rparr>)"

text \<open>
  The body of \<open>forEach((c, i) => ...)\<close>. \<open>peptide\<close> is the array registered under \<open>name\<close>;
  a push to it is seen through the registry, which holds the same array. The index \<open>i\<close>
  of an array is below \<open>2^32\<close> and so a binary64 value as it stands.
\<close>

definition addPeptide_body ::
  "constants \<Rightarrow> string \<Rightarrow> vec3 \<Rightarrow> residue list \<Rightarrow> residue option \<Rightarrow> char \<Rightarrow> nat \<Rightarrow> world
    \<Rightarrow> residue list \<times> residue \<times> world" where
  "addPeptide_body K name startPos peptide prevResidue c i w =
     (let residueX = dadd (vx startPos)
            (dmul (dmul (dadd (dadd (socketLength K) (residueRadius K)) (ballRadius K))
                     (Finite 2))
               (Finite (real i)));
          (id0, w1) = newID w;
          res = \<lparr>r_id = id0, r_name = [c], r_radius = residueRadius K,
                 r_pos = setX startPos residueX\<rparr>;
          w2 = addResidue res w1;
          peptide' = peptide @ [res];
          w3 = w2\<lparr>peptides := (peptides w2)(name \<mapsto> peptide')\<rparr>;
          w4 = (case prevResidue of None \<Rightarrow> w3
                | Some p \<Rightarrow> connect K startPos p res w3)
      in (peptide', res, w4))"

fun addPeptide_loop ::
  "constants \<Rightarrow> string \<Rightarrow> vec3 \<Rightarrow> residue list \<Rightarrow> residue option \<Rightarrow> nat \<Rightarrow> string \<Rightarrow> world
    \<Rightarrow> world" where
  "addPeptide_loop K name startPos peptide prevResidue i [] w = w"
| "addPeptide_loop K name startPos peptide prevResidue i (c # cs) w =
     (case addPeptide_body K name startPos peptide prevResidue c i w of
        (peptide', res, w') \<Rightarrow> addPeptide_loop K name startPos peptide' (Some res) (Suc i) cs w')"

definition addPeptide :: "constants \<Rightarrow> string \<Rightarrow> string \<Rightarrow> vec3 \<Rightarrow> world \<Rightarrow> world" where
  "addPeptide K name sequence startPos w =
     addPeptide_loop K name startPos [] None 0 sequence
       (w\<lparr>peptides := (peptides w)(name \<mapsto> [])\<rparr>)"

subsection \<open>addCrossLinks\<close>

datatype error = TypeError

datatype outcome = Returned world | Threw error world

text \<open>\<open>s.split(c)\<close> for a separator of one character: never empty, \<open>"".split(c)\<close> is \<open>[""]\<close>.\<close>

fun split :: "char \<Rightarrow> string \<Rightarrow> string list" where
  "split sep [] = [[]]"
| "split sep (c # cs) =
     (if c = sep then [] # split sep cs
      else (case split sep cs of
              [] \<Rightarrow> [[c]]
            | p # ps \<Rightarrow> (c # p) # ps))"

text \<open>\<open>a[i]\<close> on an array: \<open>undefined\<close> out of range.\<close>

fun index :: "'a list \<Rightarrow> nat \<Rightarrow> 'a option" where
  "index [] i = None"
| "index (a # as) 0 = Some a"
| "index (a # as) (Suc i) = index as i"

definition isDigit :: "char \<Rightarrow> bool" where
  "isDigit c = (48 \<le> (of_char c :: nat) \<and> (of_char c :: nat) \<le> 57)"

definition isAlpha :: "char \<Rightarrow> bool" where
  "isAlpha c = ((65 \<le> (of_char c :: nat) \<and> (of_char c :: nat) \<le> 90)
              \<or> (97 \<le> (of_char c :: nat) \<and> (of_char c :: nat) \<le> 122))"

text \<open>
  Modelled from the spec: \<open>getAlphaOnly\<close> of the module \<open>./common\<close>, which is not part of
  the sources at hand. The spec has it extract the alphabetic prefix of the token, the
  empty string when the token has none. The functions below take the helper as their
  first argument \<open>alpha\<close>, so that what is proved for every \<open>alpha\<close> does not rest on
  this reading; \<open>getAlphaOnly\<close> is the helper wherever a concrete one is needed.
\<close>

definition getAlphaOnly :: "string \<Rightarrow> string" where
  "getAlphaOnly token = takeWhile isAlpha token"

text \<open>\<open>token.match(/(\d+)/)\<close>: the first run of digits, \<open>null\<close> when there is none.\<close>

definition matchDigits :: "string \<Rightarrow> string option" where
  "matchDigits token =
     (case dropWhile (\<lambda>c. \<not> isDigit c) token of
        [] \<Rightarrow> None
      | ds \<Rightarrow> Some (takeWhile isDigit ds))"

text \<open>
  \<open>parseInt\<close> of a run of digits: its decimal value. (A JavaScript number rounds values
  beyond \<open>2^53\<close>; an array is shorter than that, so the lookup below fails either way.)
\<close>

definition parseInt :: "string \<Rightarrow> nat" where
  "parseInt ds = foldl (\<lambda>n c. 10 * n + (of_char c - 48)) 0 ds"

text \<open>
  \<open>this.peptides.get(chain)?.[num - 1]\<close>: \<open>undefined\<close> when the chain is not registered,
  and when \<open>num - 1\<close> is \<open>-1\<close> or beyond the chain.
\<close>

definition residueAt :: "world \<Rightarrow> string \<Rightarrow> nat \<Rightarrow> residue option" where
  "residueAt w chain num =
     (case peptides w chain of
        None \<Rightarrow> None
      | Some peptide \<Rightarrow> (if num = 0 then None else index peptide (num - 1)))"

text \<open>
  One endpoint of a clause, lines 116 to 121 and again 122 to 127. The argument is
  \<open>acids[0]\<close> or \<open>acids[1]\<close>, \<open>None\<close> when the array has no such element. The result is
  \<open>Inl TypeError\<close> where the source reads a property of \<open>undefined\<close> or \<open>null\<close>
  (\<open>acids[1].split\<close>, the token \<open>acidLocs[1]\<close> handed to \<open>getAlphaOnly\<close> and to \<open>.match\<close>,
  \<open>match(...)[0]\<close>), \<open>Inr None\<close> where the callback returns early, and \<open>Inr (Some r)\<close>
  where the residue is found and carries the symbol. A residue that is not found
  compares as \<open>undefined\<close> against the string \<open>acidChar\<close>, which always differs.
  \<open>acidLocs[0]\<close> always exists (\<open>split\<close> is never empty); were it missing, the token
  \<open>acidLocs[1]\<close> would be missing too.
\<close>

definition endpoint ::
  "(string \<Rightarrow> string) \<Rightarrow> world \<Rightarrow> string option \<Rightarrow> error + residue option" where
  "endpoint alpha w acid =
     (case acid of
        None \<Rightarrow> Inl TypeError
      | Some a \<Rightarrow>
          (let acidLocs = split (CHR '':'') a in
           case index acidLocs 0 of
             None \<Rightarrow> Inl TypeError
           | Some chain \<Rightarrow>
               (case index acidLocs 1 of
                  None \<Rightarrow> Inl TypeError
                | Some token \<Rightarrow>
                    (let acidChar = alpha token in
                     case matchDigits token of
                       None \<Rightarrow> Inl TypeError
                     | Some ds \<Rightarrow>
                         (let acidNum = parseInt ds in
                          case residueAt w chain acidNum of
                            None \<Rightarrow> Inr None
                          | Some r \<Rightarrow>
                              (if acidChar \<noteq> r_name r then Inr None else Inr (Some r)))))))"

text \<open>Lines 129 to 135: two sockets and a ball, all on the scratch matrix \<open>tempMatrix1\<close>.\<close>

definition link :: "constants \<Rightarrow> residue \<Rightarrow> residue \<Rightarrow> world \<Rightarrow> world" where
  "link K residue1 residue2 w =
     (let (id1, w1) = newID w;
          socket1 = \<lparr>s_id = id1, s_residueId = r_id residue1, s_radius = socketRadius K,
                     s_length = socketLength K, s_matrix = TempMatrix1, s_isBond = False\<rparr>;
          w2 = addSocket socket1 w1;
          (id2, w3) = newID w2;
          socket2 = \<lparr>s_id = id2, s_residueId = r_id residue2, s_radius = socketRadius K,
                     s_length = socketLength K, s_matrix = TempMatrix1, s_isBond = False\<rparr>;
          w4 = addSocket socket2 w3;
          (id3, w5) = newID w4;
          bl = \<lparr>b_id = id3, b_socket1Id = s_id socket1, b_socket2Id = s_id socket2,
                b_radius = ballRadius K, b_matrix = TempMatrix1\<rparr>;
          w6 = addBall bl w5
      in w6\<lparr>balls := balls w6 @ [bl]\<rparr>)"

text \<open>The callback of \<open>crossLinks.forEach\<close>.\<close>

definition crossLink ::
  "(string \<Rightarrow> string) \<Rightarrow> constants \<Rightarrow> world \<Rightarrow> string \<Rightarrow> outcome" where
  "crossLink alpha K w cl =
     (let acids = split (CHR ''-'') cl in
      case endpoint alpha w (index acids 0) of
        Inl e \<Rightarrow> Threw e w
      | Inr None \<Rightarrow> Returned w
      | Inr (Some residue1) \<Rightarrow>
          (case endpoint alpha w (index acids 1) of
             Inl e \<Rightarrow> Threw e w
           | Inr None \<Rightarrow> Returned w
           | Inr (Some residue2) \<Rightarrow> Returned (link K residue1 residue2 w)))"

text \<open>\<open>forEach\<close>: an exception thrown by the callback ends the loop and escapes.\<close>

fun forEach_crossLink ::
  "(string \<Rightarrow> string) \<Rightarrow> constants \<Rightarrow> world \<Rightarrow> string list \<Rightarrow> outcome" where
  "forEach_crossLink alpha K w [] = Returned w"
| "forEach_crossLink alpha K w (cl # cls) =
     (case crossLink alpha K w cl of
        Threw e w' \<Rightarrow> Threw e w'
      | Returned w' \<Rightarrow> forEach_crossLink alpha K w' cls)"

definition addCrossLinks ::
  "(string \<Rightarrow> string) \<Rightarrow> constants \<Rightarrow> world \<Rightarrow> string \<Rightarrow> outcome" where
  "addCrossLinks alpha K w crossLinkStr =
     forEach_crossLink alpha K w (split (CHR '';'') crossLinkStr)"

subsection \<open>Closed forms used in the proofs\<close>

text \<open>The primitives that \<open>addPeptide\<close> and \<open>addCrossLinks\<close> build, by the identifier drawn.\<close>

definition mk_residue :: "constants \<Rightarrow> vec3 \<Rightarrow> ident \<Rightarrow> char \<Rightarrow> nat \<Rightarrow> residue" where
  "mk_residue K startPos n c i =
     \<lparr>r_id = n, r_name = [c], r_radius = residueRadius K,
      r_pos = setX startPos
        (dadd (vx startPos)
           (dmul (dmul (dadd (dadd (socketLength K) (residueRadius K)) (ballRadius K))
                    (Finite 2))
              (Finite (real i))))\<rparr>"

definition mk_socket :: "constants \<Rightarrow> ident \<Rightarrow> ident \<Rightarrow> matrixRef \<Rightarrow> socket" where
  "mk_socket K n rid m =
     \<lparr>s_id = n, s_residueId = rid, s_radius = socketRadius K, s_length = socketLength K,
      s_matrix = m, s_isBond = False\<rparr>"

definition mk_ball :: "constants \<Rightarrow> ident \<Rightarrow> ball" where
  "mk_ball K n =
     \<lparr>b_id = n + 2, b_socket1Id = n, b_socket2Id = n + 1, b_radius = ballRadius K,
      b_matrix = TempMatrix1\<rparr>"

text \<open>The three x coordinates of lines 93, 96 and 99, from the previous residue \<open>p\<close>.\<close>

definition socket1_x :: "constants \<Rightarrow> residue \<Rightarrow> double" where
  "socket1_x K p = dadd (dadd (vx (r_pos p)) (residueRadius K)) (ddiv (socketLength K) (Finite 2))"

definition socket2_x :: "constants \<Rightarrow> residue \<Rightarrow> double" where
  "socket2_x K p = dadd (dadd (socket1_x K p) (socketLength K)) (dmul (ballRadius K) (Finite 2))"

definition ball_x :: "constants \<Rightarrow> residue \<Rightarrow> double" where
  "ball_x K p = dadd (dadd (socket1_x K p) (ddiv (socketLength K) (Finite 2))) (ballRadius K)"

text \<open>
  The three calls of one connection between \<open>p\<close> and \<open>r\<close>, the first socket drawing the
  identifier \<open>n\<close>; \<open>t\<close> is the upper-left block of \<open>tempMatrix1\<close>.
\<close>

definition joint_events ::
  "constants \<Rightarrow> vec3 \<Rightarrow> linear \<Rightarrow> ident \<Rightarrow> residue \<Rightarrow> residue \<Rightarrow> event list" where
  "joint_events K startPos t n p r =
     [AddSocket (mk_socket K n (r_id p) TempMultiMatrix1)
        \<lparr>position = setX startPos (socket1_x K p), block = Times t QuarterTurn\<rparr>,
      AddSocket (mk_socket K (n + 1) (r_id r) TempMultiMatrix1)
        \<lparr>position = setX startPos (socket2_x K p), block = Times t QuarterTurn\<rparr>,
      AddBall (mk_ball K n)
        \<lparr>position = setX startPos (ball_x K p), block = t\<rparr>]"

text \<open>What the loop adds from a residue that has a predecessor \<open>p\<close> on.\<close>

fun chain_tail :: "constants \<Rightarrow> vec3 \<Rightarrow> ident \<Rightarrow> nat \<Rightarrow> string \<Rightarrow> residue list" where
  "chain_tail K startPos n i [] = []"
| "chain_tail K startPos n i (c # cs) =
     mk_residue K startPos n c i # chain_tail K startPos (n + 4) (Suc i) cs"

fun log_tail ::
  "constants \<Rightarrow> vec3 \<Rightarrow> linear \<Rightarrow> ident \<Rightarrow> nat \<Rightarrow> residue \<Rightarrow> string \<Rightarrow> event list" where
  "log_tail K startPos t n i p [] = []"
| "log_tail K startPos t n i p (c # cs) =
     AddResidue (mk_residue K startPos n c i) #
     joint_events K startPos t (n + 1) p (mk_residue K startPos n c i) @
     log_tail K startPos t (n + 4) (Suc i) (mk_residue K startPos n c i) cs"

fun balls_tail :: "constants \<Rightarrow> ident \<Rightarrow> string \<Rightarrow> ball list" where
  "balls_tail K n [] = []"
| "balls_tail K n (c # cs) = mk_ball K (n + 1) # balls_tail K (n + 4) cs"

text \<open>All of what addPeptide leaves, in closed form.\<close>

definition chain_of :: "constants \<Rightarrow> vec3 \<Rightarrow> ident \<Rightarrow> string \<Rightarrow> residue list" where
  "chain_of K startPos n cs =
     (case cs of [] \<Rightarrow> []
      | c # cs' \<Rightarrow> mk_residue K startPos n c 0 # chain_tail K startPos (n + 1) 1 cs')"

definition log_of :: "constants \<Rightarrow> vec3 \<Rightarrow> linear \<Rightarrow> ident \<Rightarrow> string \<Rightarrow> event list" where
  "log_of K startPos t n cs =
     (case cs of [] \<Rightarrow> []
      | c # cs' \<Rightarrow> AddResidue (mk_residue K startPos n c 0) #
                  log_tail K startPos t (n + 1) 1 (mk_residue K startPos n c 0) cs')"

definition balls_of :: "constants \<Rightarrow> ident \<Rightarrow> string \<Rightarrow> ball list" where
  "balls_of K n cs = (case cs of [] \<Rightarrow> [] | c # cs' \<Rightarrow> balls_tail K (n + 1) cs')"

subsection \<open>Reading the log\<close>

fun isAddResidue :: "event \<Rightarrow> bool" where
  "isAddResidue (AddResidue r) = True"
| "isAddResidue e = False"

fun isAddSocket :: "event \<Rightarrow> bool" where
  "isAddSocket (AddSocket s m) = True"
| "isAddSocket e = False"

fun isAddBall :: "event \<Rightarrow> bool" where
  "isAddBall (AddBall b m) = True"
| "isAddBall e = False"

text \<open>The calls the collaborator received, and the balls pushed, between two states.\<close>

definition new_calls :: "world \<Rightarrow> world \<Rightarrow> event list" where
  "new_calls w w' = drop (length (threeWorld w)) (threeWorld w')"

definition new_balls :: "world \<Rightarrow> world \<Rightarrow> ball list" where
  "new_balls w w' = drop (length (balls w)) (balls w')"

subsection \<open>Example values\<close>

definition K0 :: constants where
  "K0 = \<lparr>residueRadius = Finite 1, socketRadius = Finite (1 / 4), socketLength = Finite 2,
          ballRadius = Finite (1 / 2)\<rparr>"

definition m0 :: matrix4 where
  "m0 = \<lparr>position = zero3, block = Initial\<rparr>"

definition w0 :: world where
  "w0 = DescWorld m0 m0 m0"

text \<open>The world an outcome leaves, whether the call returned or threw.\<close>

fun world_of :: "outcome \<Rightarrow> world" where
  "world_of (Returned w) = w"
| "world_of (Threw e w) = w"

text \<open>A clause in the textual form \<open>chain:token-chain:token\<close>.\<close>

definition clause :: "string \<Rightarrow> string \<Rightarrow> string \<Rightarrow> string \<Rightarrow> string" where
  "clause chain1 token1 chain2 token2 =
     chain1 @ CHR '':'' # token1 @ CHR ''-'' # chain2 @ CHR '':'' # token2"

definition w1 :: world where
  "w1 = addPeptide K0 ''P1'' ''AG'' zero3 w0"

text \<open>A string free of the three separators of the cross-link syntax.\<close>

definition plain :: "string \<Rightarrow> bool" where
  "plain s = (CHR '':'' \<notin> set s \<and> CHR ''-'' \<notin> set s \<and> CHR '';'' \<notin> set s)"

definition link_events :: "constants \<Rightarrow> ident \<Rightarrow> residue \<Rightarrow> residue \<Rightarrow> matrix4 \<Rightarrow> event list" where
  "link_events K n r1 r2 m =
     [AddSocket (mk_socket K n (r_id r1) TempMatrix1) m,
      AddSocket (mk_socket K (n + 1) (r_id r2) TempMatrix1) m,
      AddBall (mk_ball K n) m]"

definition w2 :: world where
  "w2 = addPeptide K0 ''P2'' ''GA'' zero3 w1"

subsection \<open>References between the primitives\<close>

text \<open>The identifiers of the residues, and the balls, that a log hands over.\<close>

fun residue_ids :: "event list \<Rightarrow> ident list" where
  "residue_ids [] = []"
| "residue_ids (AddResidue r # es) = r_id r # residue_ids es"
| "residue_ids (e # es) = residue_ids es"

fun logged_balls :: "event list \<Rightarrow> ball list" where
  "logged_balls [] = []"
| "logged_balls (AddBall b m # es) = b # logged_balls es"
| "logged_balls (e # es) = logged_balls es"

text \<open>
  A log read backwards, the newest call first: every socket is owned by a residue handed
  over before it, and every ball comes right after its two sockets, the first socket
  before the second.
\<close>

fun well_referenced :: "event list \<Rightarrow> bool" where
  "well_referenced [] = True"
| "well_referenced (AddResidue r # past) = well_referenced past"
| "well_referenced (AddSocket s m # past) =
     (s_residueId s \<in> set (residue_ids past) \<and> well_referenced past)"
| "well_referenced (AddBall b m # past) =
     ((case past of
         AddSocket s2 m2 # AddSocket s1 m1 # earlier \<Rightarrow>
           b_socket1Id b = s_id s1 \<and> b_socket2Id b = s_id s2
       | _ \<Rightarrow> False)
      \<and> well_referenced past)"

text \<open>A caller: any sequence of the two public operations, going on after a throw.\<close>

datatype call = AddPeptide string string vec3 | AddCrossLinks string

fun perform :: "(string \<Rightarrow> string) \<Rightarrow> constants \<Rightarrow> world \<Rightarrow> call \<Rightarrow> world" where
  "perform alpha K w (AddPeptide name sequence startPos) = addPeptide K name sequence startPos w"
| "perform alpha K w (AddCrossLinks crossLinkStr) = world_of (addCrossLinks alpha K w crossLinkStr)"

definition run :: "(string \<Rightarrow> string) \<Rightarrow> constants \<Rightarrow> world \<Rightarrow> call list \<Rightarrow> world" where
  "run alpha K w calls = foldl (perform alpha K) w calls"

text \<open>What the proofs carry along: the log is well referenced, every registered residue
  has been handed over, and the ball list holds the balls handed over.\<close>

definition registered_logged :: "world \<Rightarrow> bool" where
  "registered_logged w =
     (\<forall>name chain r. peptides w name = Some chain \<and> r \<in> set chain \<longrightarrow>
        r_id r \<in> set (residue_ids (threeWorld w)))"

definition inv :: "world \<Rightarrow> bool" where
  "inv w = (well_referenced (rev (threeWorld w)) \<and> registered_logged w
            \<and> balls w = logged_balls (threeWorld w))"

text \<open>A start point far from the origin, where neighbouring binary64 values are 16 apart.\<close>

definition far_start :: vec3 where
  "far_start = \<lparr>vx = Finite 100000000000000000, vy = Finite 0, vz = Finite 0\<rparr>"

text \<open>Where a call places its primitive.\<close>

fun call_position :: "event \<Rightarrow> vec3" where
  "call_position (AddResidue r) = r_pos r"
| "call_position (AddSocket s m) = position m"
| "call_position (AddBall b m) = position m"

section \<open>Lemmas\<close>

subsection \<open>Evaluating the arithmetic\<close>

lemmas double_eval = round64_def quantum_def roundEven_def binade.simps exact_def Let_def

lemma exact_sum: "exact (a + b) \<Longrightarrow> dadd (Finite a) (Finite b) = Finite (a + b)"
  by (simp add: exact_def)

lemma exact_product: "exact (a * b) \<Longrightarrow> dmul (Finite a) (Finite b) = Finite (a * b)"
  by (simp add: exact_def)

lemma exact_half: "exact (a / 2) \<Longrightarrow> ddiv (Finite a) (Finite 2) = Finite (a / 2)"
  by (simp add: exact_def)

subsection \<open>One connection, one loop step, the loop\<close>

lemmas prims = newID_def rotatedAt_def placedAt_def addSocket_def addBall_def addResidue_def
  deref_def setPosition_def multiplyMatrices_def makeRotationAxis_def Let_def

lemma connect_threeWorld:
  "threeWorld (connect K startPos p r w) =
     threeWorld w @ joint_events K startPos (block (tempMatrix1 w)) (nextID w) p r"
  by (simp add: connect_def prims joint_events_def mk_socket_def mk_ball_def
      socket1_x_def socket2_x_def ball_x_def)

lemma connect_balls: "balls (connect K startPos p r w) = balls w @ [mk_ball K (nextID w)]"
  by (simp add: connect_def prims mk_ball_def)

lemma connect_peptides: "peptides (connect K startPos p r w) = peptides w"
  by (simp add: connect_def prims)

lemma connect_nextID: "nextID (connect K startPos p r w) = nextID w + 3"
  by (simp add: connect_def prims)

lemma connect_block: "block (tempMatrix1 (connect K startPos p r w)) = block (tempMatrix1 w)"
  by (simp add: connect_def prims)

lemma body_fst:
  "fst (addPeptide_body K name startPos pep prev c i w) =
     pep @ [mk_residue K startPos (nextID w) c i]"
  by (simp add: addPeptide_body_def prims mk_residue_def split_beta)

lemma body_res:
  "fst (snd (addPeptide_body K name startPos pep prev c i w)) =
     mk_residue K startPos (nextID w) c i"
  by (simp add: addPeptide_body_def prims mk_residue_def split_beta)

lemma body_peptides:
  "peptides (snd (snd (addPeptide_body K name startPos pep prev c i w))) =
     (peptides w)(name \<mapsto> pep @ [mk_residue K startPos (nextID w) c i])"
  by (cases prev)
    (simp_all add: addPeptide_body_def prims mk_residue_def split_beta connect_peptides)

lemma body_threeWorld:
  "threeWorld (snd (snd (addPeptide_body K name startPos pep prev c i w))) =
     threeWorld w @ AddResidue (mk_residue K startPos (nextID w) c i) #
       (case prev of None \<Rightarrow> []
        | Some p \<Rightarrow> joint_events K startPos (block (tempMatrix1 w)) (nextID w + 1) p
                     (mk_residue K startPos (nextID w) c i))"
  by (cases prev)
    (simp_all add: addPeptide_body_def prims mk_residue_def split_beta connect_threeWorld)

lemma body_balls:
  "balls (snd (snd (addPeptide_body K name startPos pep prev c i w))) =
     balls w @ (case prev of None \<Rightarrow> [] | Some p \<Rightarrow> [mk_ball K (nextID w + 1)])"
  by (cases prev) (simp_all add: addPeptide_body_def prims split_beta connect_balls)

lemma body_nextID:
  "nextID (snd (snd (addPeptide_body K name startPos pep prev c i w))) =
     nextID w + (case prev of None \<Rightarrow> 1 | Some p \<Rightarrow> 4)"
  by (cases prev) (simp_all add: addPeptide_body_def prims split_beta connect_nextID)

lemma body_block:
  "block (tempMatrix1 (snd (snd (addPeptide_body K name startPos pep prev c i w)))) =
     block (tempMatrix1 w)"
  by (cases prev) (simp_all add: addPeptide_body_def prims split_beta connect_block)

lemmas body_simps =
  body_fst body_res body_peptides body_threeWorld body_balls body_nextID body_block

lemma loop_peptides:
  "peptides w name = Some pep \<Longrightarrow>
   peptides (addPeptide_loop K name startPos pep (Some p) i cs w) =
     (peptides w)(name \<mapsto> pep @ chain_tail K startPos (nextID w) i cs)"
proof (induction cs arbitrary: pep p i w)
  case Nil
  then show ?case by (simp add: fun_upd_idem)
next
  case (Cons c cs)
  show ?case
    by (simp add: split_beta body_simps Cons.IH fun_eq_iff)
qed

lemma loop_threeWorld:
  "threeWorld (addPeptide_loop K name startPos pep (Some p) i cs w) =
     threeWorld w @ log_tail K startPos (block (tempMatrix1 w)) (nextID w) i p cs"
  by (induction cs arbitrary: pep p i w) (simp_all add: split_beta body_simps)

lemma loop_balls:
  "balls (addPeptide_loop K name startPos pep (Some p) i cs w) =
     balls w @ balls_tail K (nextID w) cs"
  by (induction cs arbitrary: pep p i w) (simp_all add: split_beta body_simps)

lemma loop_nextID:
  "nextID (addPeptide_loop K name startPos pep (Some p) i cs w) = nextID w + 4 * length cs"
  by (induction cs arbitrary: pep p i w) (simp_all add: split_beta body_simps)

lemma loop_block:
  "block (tempMatrix1 (addPeptide_loop K name startPos pep prev i cs w)) =
     block (tempMatrix1 w)"
  by (induction cs arbitrary: pep prev i w) (simp_all add: split_beta body_simps)

subsection \<open>addPeptide as a whole\<close>

lemma addPeptide_peptides:
  "peptides (addPeptide K name cs startPos w) =
     (peptides w)(name \<mapsto> chain_of K startPos (nextID w) cs)"
  by (cases cs)
    (simp_all add: addPeptide_def chain_of_def split_beta body_simps loop_peptides fun_eq_iff)

lemma addPeptide_threeWorld:
  "threeWorld (addPeptide K name cs startPos w) =
     threeWorld w @ log_of K startPos (block (tempMatrix1 w)) (nextID w) cs"
  by (cases cs)
    (simp_all add: addPeptide_def log_of_def split_beta body_simps loop_threeWorld)

lemma addPeptide_balls:
  "balls (addPeptide K name cs startPos w) = balls w @ balls_of K (nextID w) cs"
  by (cases cs)
    (simp_all add: addPeptide_def balls_of_def split_beta body_simps loop_balls)

lemma addPeptide_nextID:
  "nextID (addPeptide K name cs startPos w) =
     nextID w + (case cs of [] \<Rightarrow> 0 | c # cs' \<Rightarrow> 1 + 4 * length cs')"
  by (cases cs)
    (simp_all add: addPeptide_def split_beta body_simps loop_nextID)

lemma addPeptide_block:
  "block (tempMatrix1 (addPeptide K name cs startPos w)) = block (tempMatrix1 w)"
  by (simp add: addPeptide_def loop_block)

lemma length_chain_tail: "length (chain_tail K startPos n i cs) = length cs"
  by (induction cs arbitrary: n i) simp_all

lemma nth_chain_tail:
  "j < length cs \<Longrightarrow>
   chain_tail K startPos n i cs ! j = mk_residue K startPos (n + 4 * j) (cs ! j) (i + j)"
proof (induction cs arbitrary: n i j)
  case Nil
  then show ?case by simp
next
  case (Cons c cs)
  show ?case
  proof (cases j)
    case 0
    then show ?thesis by simp
  next
    case (Suc k)
    with Cons.prems have "k < length cs" by simp
    from Cons.IH [OF this, of "n + 4" "Suc i"] Suc show ?thesis
      by (simp add: add.assoc)
  qed
qed

lemma length_chain_of: "length (chain_of K startPos n cs) = length cs"
  by (cases cs) (simp_all add: chain_of_def length_chain_tail)

lemma nth_chain_of:
  "j < length cs \<Longrightarrow>
   chain_of K startPos n cs ! j =
     mk_residue K startPos (if j = 0 then n else n + 4 * j - 3) (cs ! j) j"
proof (cases cs)
  case Nil
  assume "j < length cs"
  with Nil show ?thesis by simp
next
  case (Cons c cs')
  assume j: "j < length cs"
  show ?thesis
  proof (cases j)
    case 0
    with Cons show ?thesis by (simp add: chain_of_def)
  next
    case (Suc k)
    with j Cons have "k < length cs'" by simp
    from nth_chain_tail [OF this, of K startPos "n + 1" 1] Suc Cons show ?thesis
      by (simp add: chain_of_def)
  qed
qed

subsection \<open>What addPeptide produces\<close>

lemma count_log_tail:
  "length (filter isAddResidue (log_tail K startPos t n i p cs)) = length cs
   \<and> length (filter isAddSocket (log_tail K startPos t n i p cs)) = 2 * length cs
   \<and> length (filter isAddBall (log_tail K startPos t n i p cs)) = length cs"
  by (induction cs arbitrary: n i p) (simp_all add: joint_events_def)

lemma count_log_of:
  "length (filter isAddResidue (log_of K startPos t n cs)) = length cs
   \<and> length (filter isAddSocket (log_of K startPos t n cs)) = 2 * (length cs - 1)
   \<and> length (filter isAddBall (log_of K startPos t n cs)) = length cs - 1"
  by (cases cs) (simp_all add: log_of_def count_log_tail)

lemma length_balls_tail: "length (balls_tail K n cs) = length cs"
  by (induction cs arbitrary: n) simp_all

lemma length_balls_of: "length (balls_of K n cs) = length cs - 1"
  by (cases cs) (simp_all add: balls_of_def length_balls_tail)

lemma new_calls_addPeptide:
  "new_calls w (addPeptide K name cs startPos w) =
     log_of K startPos (block (tempMatrix1 w)) (nextID w) cs"
  by (simp add: new_calls_def addPeptide_threeWorld)

lemma new_balls_addPeptide:
  "new_balls w (addPeptide K name cs startPos w) = balls_of K (nextID w) cs"
  by (simp add: new_balls_def addPeptide_balls)

text \<open>
  C3: \<open>addPeptide\<close> on a sequence of length \<open>n\<close> registers a chain of \<open>n\<close> residues and hands
  \<open>n\<close> residues to the collaborator; for \<open>n \<ge> 1\<close> it hands over \<open>2 * (n - 1)\<close> sockets and
  \<open>n - 1\<close> balls and pushes \<open>n - 1\<close> balls; for \<open>n = 0\<close> it hands over and pushes nothing. The
  function is total: no branch of it raises.
\<close>

theorem addPeptide_counts:
  "map_option length (peptides (addPeptide K name sequence startPos w) name)
     = Some (length sequence)
   \<and> threeWorld (addPeptide K name sequence startPos w)
     = threeWorld w @ new_calls w (addPeptide K name sequence startPos w)
   \<and> balls (addPeptide K name sequence startPos w)
     = balls w @ new_balls w (addPeptide K name sequence startPos w)
   \<and> length (filter isAddResidue (new_calls w (addPeptide K name sequence startPos w)))
     = length sequence
   \<and> (1 \<le> length sequence \<longrightarrow>
        length (filter isAddSocket (new_calls w (addPeptide K name sequence startPos w)))
          = 2 * (length sequence - 1)
      \<and> length (filter isAddBall (new_calls w (addPeptide K name sequence startPos w)))
          = length sequence - 1
      \<and> length (new_balls w (addPeptide K name sequence startPos w)) = length sequence - 1)
   \<and> (length sequence = 0 \<longrightarrow>
        new_calls w (addPeptide K name sequence startPos w) = []
      \<and> new_balls w (addPeptide K name sequence startPos w) = [])"
proof -
  have "new_calls w (addPeptide K name sequence startPos w) = []"
    and "new_balls w (addPeptide K name sequence startPos w) = []"
    if "length sequence = 0"
    using that by (simp_all add: new_calls_addPeptide new_balls_addPeptide log_of_def balls_of_def)
  moreover have "threeWorld (addPeptide K name sequence startPos w)
     = threeWorld w @ new_calls w (addPeptide K name sequence startPos w)"
    by (simp add: new_calls_def addPeptide_threeWorld)
  moreover have "balls (addPeptide K name sequence startPos w)
     = balls w @ new_balls w (addPeptide K name sequence startPos w)"
    by (simp add: new_balls_def addPeptide_balls)
  moreover have "map_option length (peptides (addPeptide K name sequence startPos w) name)
     = Some (length sequence)"
    by (simp add: addPeptide_peptides length_chain_of)
  ultimately show ?thesis
    by (simp add: new_calls_addPeptide new_balls_addPeptide count_log_of length_balls_of)
qed

theorem addPeptide_counts_witness:
  "length (filter isAddResidue (new_calls w0 (addPeptide K0 ''P1'' ''AGC'' zero3 w0))) = 3
   \<and> length (filter isAddSocket (new_calls w0 (addPeptide K0 ''P1'' ''AGC'' zero3 w0))) = 4
   \<and> length (filter isAddBall (new_calls w0 (addPeptide K0 ''P1'' ''AGC'' zero3 w0))) = 2
   \<and> length (new_balls w0 (addPeptide K0 ''P1'' ''AGC'' zero3 w0)) = 2
   \<and> length (filter isAddResidue (new_calls w0 (addPeptide K0 ''P1'' [] zero3 w0))) = 0
   \<and> new_calls w0 (addPeptide K0 ''P1'' [] zero3 w0) = []
   \<and> new_balls w0 (addPeptide K0 ''P1'' [] zero3 w0) = []"
  using addPeptide_counts [of K0 "''P1''" "''AGC''" zero3 w0]
    addPeptide_counts [of K0 "''P1''" "[]" zero3 w0]
  by simp

lemma chain_of_name:
  "j < length cs \<Longrightarrow> r_name (chain_of K startPos n cs ! j) = [cs ! j]"
  by (simp add: nth_chain_of mk_residue_def)

lemma chain_of_pos:
  "j < length cs \<Longrightarrow>
   r_pos (chain_of K startPos n cs ! j) =
     \<lparr>vx = dadd (vx startPos)
             (dmul (dmul (dadd (dadd (socketLength K) (residueRadius K)) (ballRadius K))
                      (Finite 2))
                (Finite (real j))),
      vy = vy startPos, vz = vz startPos\<rparr>"
  by (simp add: nth_chain_of mk_residue_def setX_def)

lemma chain_of_id_ge: "r \<in> set (chain_of K startPos n cs) \<Longrightarrow> n \<le> r_id r"
proof -
  assume "r \<in> set (chain_of K startPos n cs)"
  then obtain j where j: "j < length cs" and r: "r = chain_of K startPos n cs ! j"
    by (auto simp: in_set_conv_nth length_chain_of)
  show ?thesis
    using j by (auto simp add: r nth_chain_of mk_residue_def)
qed

lemma chain_of_id_less:
  "r \<in> set (chain_of K startPos n cs) \<Longrightarrow>
   r_id r < n + (case cs of [] \<Rightarrow> 0 | c # cs' \<Rightarrow> 1 + 4 * length cs')"
proof -
  assume "r \<in> set (chain_of K startPos n cs)"
  then obtain j where j: "j < length cs" and r: "r = chain_of K startPos n cs ! j"
    by (auto simp: in_set_conv_nth length_chain_of)
  show ?thesis
    using j by (cases cs) (auto simp add: r nth_chain_of mk_residue_def)
qed

text \<open>
  C4 fails as stated: the x coordinate is computed in binary64 arithmetic. From the start
  point \<open>x = 10^17\<close>, where neighbouring values are 16 apart, with the spacing 7, the
  residues of \<open>AGC\<close> lie at \<open>10^17\<close>, \<open>10^17\<close> and \<open>10^17 + 16\<close>: the first two coincide and
  the spacing is not constant.
\<close>

theorem spacing_absorbed:
  "map_option (map r_pos) (peptides (addPeptide K0 ''P1'' ''AGC'' far_start w0) ''P1'') =
     Some [\<lparr>vx = Finite 100000000000000000, vy = Finite 0, vz = Finite 0\<rparr>,
           \<lparr>vx = Finite 100000000000000000, vy = Finite 0, vz = Finite 0\<rparr>,
           \<lparr>vx = Finite 100000000000000016, vy = Finite 0, vz = Finite 0\<rparr>]
   \<and> \<not> dless (Finite 100000000000000000) (Finite 100000000000000000)"
  by (simp add: addPeptide_peptides chain_of_def mk_residue_def setX_def far_start_def K0_def
      double_eval)

text \<open>
  C4, as the code has it: the residue at 0-based index \<open>i\<close> of the chain built by
  \<open>addPeptide\<close> has the x coordinate \<open>startPos.x + (socketLength + residueRadius +
  ballRadius) * 2 * i\<close> as binary64 arithmetic computes it, each operation rounded, and the
  y and z of the start point. Where the constants and \<open>startPos.x\<close> are finite and none of
  these operations rounds, the x coordinate is the exact value of the formula, so that
  consecutive residues are \<open>2 * (socketLength + residueRadius + ballRadius)\<close> apart, and the
  x coordinates increase strictly when that sum is positive.
\<close>

theorem addPeptide_positions:
  "\<exists>chain. peptides (addPeptide K name sequence startPos w) name = Some chain
     \<and> length chain = length sequence
     \<and> (\<forall>i < length sequence.
          r_pos (chain ! i) =
            \<lparr>vx = dadd (vx startPos)
                    (dmul (dmul (dadd (dadd (socketLength K) (residueRadius K)) (ballRadius K))
                             (Finite 2))
                       (Finite (real i))),
             vy = vy startPos, vz = vz startPos\<rparr>)
     \<and> (\<forall>l r b x0.
          socketLength K = Finite l \<and> residueRadius K = Finite r \<and> ballRadius K = Finite b
          \<and> vx startPos = Finite x0
          \<and> exact (l + r) \<and> exact (l + r + b) \<and> exact ((l + r + b) * 2)
          \<and> (\<forall>i < length sequence.
                exact ((l + r + b) * 2 * real i) \<and> exact (x0 + (l + r + b) * 2 * real i))
          \<longrightarrow>
            (\<forall>i < length sequence.
               vx (r_pos (chain ! i)) = Finite (x0 + (l + r + b) * 2 * real i))
          \<and> (0 < l + r + b \<longrightarrow>
               (\<forall>i. Suc i < length sequence \<longrightarrow>
                  dless (vx (r_pos (chain ! i))) (vx (r_pos (chain ! Suc i))))))"
proof -
  let ?chain = "chain_of K startPos (nextID w) sequence"
  have a: "peptides (addPeptide K name sequence startPos w) name = Some ?chain"
    by (simp add: addPeptide_peptides)
  have b: "length ?chain = length sequence"
    by (rule length_chain_of)
  have c: "\<forall>i < length sequence.
          r_pos (?chain ! i) =
            \<lparr>vx = dadd (vx startPos)
                    (dmul (dmul (dadd (dadd (socketLength K) (residueRadius K)) (ballRadius K))
                             (Finite 2))
                       (Finite (real i))),
             vy = vy startPos, vz = vz startPos\<rparr>"
    by (simp add: chain_of_pos)
  have x: "vx (r_pos (?chain ! i)) = Finite (x0 + (l + r + b) * 2 * real i)"
    if K: "socketLength K = Finite l" "residueRadius K = Finite r" "ballRadius K = Finite b"
      "vx startPos = Finite x0"
      and e: "exact (l + r)" "exact (l + r + b)" "exact ((l + r + b) * 2)"
      and ei: "\<forall>i < length sequence.
                exact ((l + r + b) * 2 * real i) \<and> exact (x0 + (l + r + b) * 2 * real i)"
      and i: "i < length sequence"
    for l r b x0 i
  proof -
    from ei i have f: "exact ((l + r + b) * 2 * real i)" "exact (x0 + (l + r + b) * 2 * real i)"
      by simp_all
    note s = exact_sum [OF e(1)] exact_sum [OF e(2)] exact_product [OF e(3)]
      exact_product [OF f(1)] exact_sum [OF f(2)]
    have "vx (r_pos (?chain ! i)) =
        dadd (vx startPos)
          (dmul (dmul (dadd (dadd (socketLength K) (residueRadius K)) (ballRadius K)) (Finite 2))
             (Finite (real i)))"
      by (simp add: chain_of_pos [OF i])
    also have "\<dots> = Finite (x0 + (l + r + b) * 2 * real i)"
      by (simp only: K s)
    finally show ?thesis .
  qed
  have d: "\<forall>l r b x0.
          socketLength K = Finite l \<and> residueRadius K = Finite r \<and> ballRadius K = Finite b
          \<and> vx startPos = Finite x0
          \<and> exact (l + r) \<and> exact (l + r + b) \<and> exact ((l + r + b) * 2)
          \<and> (\<forall>i < length sequence.
                exact ((l + r + b) * 2 * real i) \<and> exact (x0 + (l + r + b) * 2 * real i))
          \<longrightarrow>
            (\<forall>i < length sequence.
               vx (r_pos (?chain ! i)) = Finite (x0 + (l + r + b) * 2 * real i))
          \<and> (0 < l + r + b \<longrightarrow>
               (\<forall>i. Suc i < length sequence \<longrightarrow>
                  dless (vx (r_pos (?chain ! i))) (vx (r_pos (?chain ! Suc i)))))"
  proof (intro allI impI conjI, goal_cases)
    case (1 l r b x0 i)
    then show ?case by (intro x) simp_all
  next
    case (2 l r b x0 i)
    then have "i < length sequence" by simp
    with 2 have "vx (r_pos (?chain ! i)) = Finite (x0 + (l + r + b) * 2 * real i)"
      by (intro x) simp_all
    moreover from 2 have
      "vx (r_pos (?chain ! Suc i)) = Finite (x0 + (l + r + b) * 2 * real (Suc i))"
      by (intro x) simp_all
    moreover from 2 have "(l + r + b) * 2 * real i < (l + r + b) * 2 * real (Suc i)"
      by simp
    ultimately show ?case by simp
  qed
  show ?thesis
    by (rule exI [of _ ?chain]) (intro conjI a b c d)
qed

theorem addPeptide_positions_witness:
  "\<exists>chain. peptides (addPeptide K0 ''P1'' ''AGC'' zero3 w0) ''P1'' = Some chain
     \<and> r_pos (chain ! 2) = \<lparr>vx = Finite 14, vy = Finite 0, vz = Finite 0\<rparr>
     \<and> vx (r_pos (chain ! 1)) = Finite 7
     \<and> dless (vx (r_pos (chain ! 1))) (vx (r_pos (chain ! 2)))"
proof -
  from addPeptide_positions [of K0 "''P1''" "''AGC''" zero3 w0]
  obtain chain where c: "peptides (addPeptide K0 ''P1'' ''AGC'' zero3 w0) ''P1'' = Some chain"
    and d: "\<forall>l r b x0.
          socketLength K0 = Finite l \<and> residueRadius K0 = Finite r \<and> ballRadius K0 = Finite b
          \<and> vx zero3 = Finite x0
          \<and> exact (l + r) \<and> exact (l + r + b) \<and> exact ((l + r + b) * 2)
          \<and> (\<forall>i < length ''AGC''.
                exact ((l + r + b) * 2 * real i) \<and> exact (x0 + (l + r + b) * 2 * real i))
          \<longrightarrow>
            (\<forall>i < length ''AGC''.
               vx (r_pos (chain ! i)) = Finite (x0 + (l + r + b) * 2 * real i))
          \<and> (0 < l + r + b \<longrightarrow>
               (\<forall>i. Suc i < length ''AGC'' \<longrightarrow>
                  dless (vx (r_pos (chain ! i))) (vx (r_pos (chain ! Suc i)))))"
    and p: "\<forall>i < length ''AGC''.
          r_pos (chain ! i) =
            \<lparr>vx = dadd (vx zero3)
                    (dmul (dmul (dadd (dadd (socketLength K0) (residueRadius K0)) (ballRadius K0))
                             (Finite 2))
                       (Finite (real i))),
             vy = vy zero3, vz = vz zero3\<rparr>"
    by blast
  have h: "socketLength K0 = Finite 2 \<and> residueRadius K0 = Finite 1 \<and> ballRadius K0 = Finite (1 / 2)
          \<and> vx zero3 = Finite 0
          \<and> exact (2 + 1) \<and> exact (2 + 1 + 1 / 2) \<and> exact ((2 + 1 + 1 / 2) * 2)
          \<and> (\<forall>i < length ''AGC''.
                exact ((2 + 1 + 1 / 2) * 2 * real i) \<and> exact (0 + (2 + 1 + 1 / 2) * 2 * real i))"
    by (simp add: K0_def zero3_def All_less_Suc double_eval)
  note r = d [rule_format, OF h]
  from r have 1: "vx (r_pos (chain ! 1)) = Finite 7"
    by simp
  from r have 2: "dless (vx (r_pos (chain ! 1))) (vx (r_pos (chain ! 2)))"
    by (simp add: numeral_2_eq_2)
  from p have 3: "r_pos (chain ! 2) = \<lparr>vx = Finite 14, vy = Finite 0, vz = Finite 0\<rparr>"
    by (simp add: K0_def zero3_def double_eval)
  from c 1 2 3 show ?thesis by blast
qed

lemma map_name_chain_of: "map r_name (chain_of K startPos n cs) = map (\<lambda>c. [c]) cs"
  by (rule nth_equalityI) (simp_all add: length_chain_of chain_of_name)

text \<open>
  C8: a second \<open>addPeptide\<close> under a name that is already registered replaces the chain,
  without an error. A lookup under the name then gives the chain built from the second
  sequence and start point; none of its residues is a residue of the replaced chain, and
  the chains under other names are untouched.
\<close>

theorem addPeptide_last_write_wins:
  "\<exists>old new.
      peptides (addPeptide K name s1 p1 w) name = Some old
    \<and> peptides (addPeptide K name s2 p2 (addPeptide K name s1 p1 w)) name = Some new
    \<and> map r_name old = map (\<lambda>c. [c]) s1
    \<and> map r_name new = map (\<lambda>c. [c]) s2
    \<and> (\<forall>i < length s2.
          r_pos (new ! i) =
            \<lparr>vx = dadd (vx p2)
                    (dmul (dmul (dadd (dadd (socketLength K) (residueRadius K)) (ballRadius K))
                             (Finite 2))
                       (Finite (real i))),
             vy = vy p2, vz = vz p2\<rparr>)
    \<and> (\<forall>r \<in> set new. \<forall>r' \<in> set old. r_id r \<noteq> r_id r')
    \<and> (\<forall>other. other \<noteq> name \<longrightarrow>
          peptides (addPeptide K name s2 p2 (addPeptide K name s1 p1 w)) other =
          peptides (addPeptide K name s1 p1 w) other)"
proof -
  let ?w1 = "addPeptide K name s1 p1 w"
  let ?old = "chain_of K p1 (nextID w) s1"
  let ?new = "chain_of K p2 (nextID ?w1) s2"
  have fresh: "r_id r \<noteq> r_id r'" if "r \<in> set ?new" and "r' \<in> set ?old" for r r'
  proof -
    from that(2) have "r_id r' < nextID ?w1"
      by (simp add: addPeptide_nextID chain_of_id_less)
    moreover from that(1) have "nextID ?w1 \<le> r_id r"
      by (rule chain_of_id_ge)
    ultimately show ?thesis by simp
  qed
  have a: "peptides ?w1 name = Some ?old"
    by (simp add: addPeptide_peptides)
  have b: "peptides (addPeptide K name s2 p2 ?w1) name = Some ?new"
    by (simp add: addPeptide_peptides)
  have c: "map r_name ?old = map (\<lambda>c. [c]) s1"
    by (rule map_name_chain_of)
  have d: "map r_name ?new = map (\<lambda>c. [c]) s2"
    by (rule map_name_chain_of)
  have e: "\<forall>i < length s2.
          r_pos (?new ! i) =
            \<lparr>vx = dadd (vx p2)
                    (dmul (dmul (dadd (dadd (socketLength K) (residueRadius K)) (ballRadius K))
                             (Finite 2))
                       (Finite (real i))),
             vy = vy p2, vz = vz p2\<rparr>"
    by (simp add: chain_of_pos)
  have f: "\<forall>r \<in> set ?new. \<forall>r' \<in> set ?old. r_id r \<noteq> r_id r'"
    using fresh by blast
  have g: "\<forall>other. other \<noteq> name \<longrightarrow>
      peptides (addPeptide K name s2 p2 ?w1) other = peptides ?w1 other"
    by (simp add: addPeptide_peptides)
  show ?thesis
    by (rule exI [of _ ?old], rule exI [of _ ?new]) (intro conjI a b c d e f g)
qed

theorem addPeptide_last_write_wins_witness:
  "\<exists>new. peptides (addPeptide K0 ''P1'' ''GA'' zero3 (addPeptide K0 ''P1'' ''AGC'' zero3 w0)) ''P1''
            = Some new
     \<and> map r_name new = [''G'', ''A'']
     \<and> r_pos (new ! 1) = \<lparr>vx = Finite 7, vy = Finite 0, vz = Finite 0\<rparr>
     \<and> peptides (addPeptide K0 ''P1'' ''GA'' zero3 (addPeptide K0 ''P1'' ''AGC'' zero3 w0)) ''P2''
          = peptides (addPeptide K0 ''P1'' ''AGC'' zero3 w0) ''P2''"
  using addPeptide_last_write_wins [of K0 "''P1''" "''AGC''" zero3 w0 "''GA''" zero3]
  apply (elim exE conjE)
  subgoal for old new
    apply (rule exI [of _ new])
    apply (simp add: K0_def zero3_def double_eval)
    done
  done

subsection \<open>Splitting and tokens\<close>

lemma split_not_Nil: "split sep s \<noteq> []"
  by (induction s) (auto split: list.splits)

lemma split_no_sep: "sep \<notin> set s \<Longrightarrow> split sep s = [s]"
  by (induction s) auto

lemma split_append: "sep \<notin> set a \<Longrightarrow> split sep (a @ sep # b) = a # split sep b"
  by (induction a) (auto split: list.splits simp: split_not_Nil)

lemma alpha_not_digit: "isAlpha c \<Longrightarrow> \<not> isDigit c"
  by (auto simp: isAlpha_def isDigit_def)

lemma matchDigits_token:
  "\<forall>c \<in> set X. \<not> isDigit c \<Longrightarrow> \<forall>c \<in> set d. isDigit c \<Longrightarrow> d \<noteq> [] \<Longrightarrow>
   matchDigits (X @ d) = Some d"
proof -
  assume X: "\<forall>c \<in> set X. \<not> isDigit c" and d: "\<forall>c \<in> set d. isDigit c" and ne: "d \<noteq> []"
  from ne obtain c cs where dc: "d = c # cs" by (cases d) auto
  with d have "isDigit c" by simp
  with X have "dropWhile (\<lambda>c. \<not> isDigit c) (X @ d) = d"
    by (simp add: dropWhile_append3 dc)
  moreover from d have "takeWhile isDigit d = d"
    by simp
  ultimately show ?thesis
    using dc by (simp add: matchDigits_def)
qed


lemma getAlphaOnly_token:
  "\<forall>c \<in> set X. isAlpha c \<Longrightarrow> \<forall>c \<in> set d. isDigit c \<Longrightarrow> getAlphaOnly (X @ d) = X"
proof -
  assume X: "\<forall>c \<in> set X. isAlpha c" and d: "\<forall>c \<in> set d. isDigit c"
  from d have "takeWhile isAlpha d = []"
    by (cases d) (auto simp: alpha_not_digit)
  with X show ?thesis
    by (simp add: getAlphaOnly_def)
qed

subsection \<open>One endpoint, one clause\<close>


lemma endpoint_no_token: "CHR '':'' \<notin> set a \<Longrightarrow> endpoint alpha w (Some a) = Inl TypeError"
  by (simp add: endpoint_def split_no_sep)


lemma endpoint_token:
  "CHR '':'' \<notin> set chain \<Longrightarrow> CHR '':'' \<notin> set token \<Longrightarrow> matchDigits token = Some ds \<Longrightarrow>
   endpoint alpha w (Some (chain @ CHR '':'' # token)) =
     (case residueAt w chain (parseInt ds) of
        None \<Rightarrow> Inr None
      | Some r \<Rightarrow> if alpha token = r_name r then Inr (Some r) else Inr None)"
  by (simp add: endpoint_def split_append split_no_sep split: option.splits)

lemma link_threeWorld:
  "threeWorld (link K r1 r2 w) = threeWorld w @ link_events K (nextID w) r1 r2 (tempMatrix1 w)"
  by (simp add: link_def prims link_events_def mk_socket_def mk_ball_def)

lemma link_balls: "balls (link K r1 r2 w) = balls w @ [mk_ball K (nextID w)]"
  by (simp add: link_def prims mk_ball_def)

lemma link_peptides: "peptides (link K r1 r2 w) = peptides w"
  by (simp add: link_def prims)

lemma link_nextID: "nextID (link K r1 r2 w) = nextID w + 3"
  by (simp add: link_def prims)

lemma alpha_plain: "\<forall>c \<in> set X. isAlpha c \<Longrightarrow> plain X"
  by (auto simp: plain_def isAlpha_def)

lemma digits_plain: "\<forall>c \<in> set d. isDigit c \<Longrightarrow> plain d"
  by (auto simp: plain_def isDigit_def)

lemma plain_append: "plain (a @ b) \<longleftrightarrow> plain a \<and> plain b"
  by (auto simp: plain_def)

lemma split_clause:
  "plain chain1 \<Longrightarrow> plain token1 \<Longrightarrow> plain chain2 \<Longrightarrow> plain token2 \<Longrightarrow>
   split (CHR ''-'') (clause chain1 token1 chain2 token2) =
     [chain1 @ CHR '':'' # token1, chain2 @ CHR '':'' # token2]"
proof -
  assume p: "plain chain1" "plain token1" "plain chain2" "plain token2"
  then have "CHR ''-'' \<notin> set (chain1 @ CHR '':'' # token1)"
    and "CHR ''-'' \<notin> set (chain2 @ CHR '':'' # token2)"
    by (simp_all add: plain_def)
  then have "split (CHR ''-'') ((chain1 @ CHR '':'' # token1) @ CHR ''-'' # (chain2 @ CHR '':'' # token2))
      = [chain1 @ CHR '':'' # token1, chain2 @ CHR '':'' # token2]"
    using split_append [of "CHR ''-''" "chain1 @ CHR '':'' # token1" "chain2 @ CHR '':'' # token2"]
      split_no_sep [of "CHR ''-''" "chain2 @ CHR '':'' # token2"]
    by simp
  then show ?thesis by (simp add: clause_def)
qed

lemma crossLink_wellformed:
  assumes "plain chain1" "plain token1" "plain chain2" "plain token2"
    and "matchDigits token1 = Some ds1" "matchDigits token2 = Some ds2"
  shows "crossLink alpha K w (clause chain1 token1 chain2 token2) =
     (case residueAt w chain1 (parseInt ds1) of
        None \<Rightarrow> Returned w
      | Some r1 \<Rightarrow>
          if alpha token1 \<noteq> r_name r1 then Returned w
          else (case residueAt w chain2 (parseInt ds2) of
                  None \<Rightarrow> Returned w
                | Some r2 \<Rightarrow>
                    if alpha token2 \<noteq> r_name r2 then Returned w
                    else Returned (link K r1 r2 w)))"
proof -
  have c: "CHR '':'' \<notin> set chain1" "CHR '':'' \<notin> set token1"
    "CHR '':'' \<notin> set chain2" "CHR '':'' \<notin> set token2"
    using assms(1-4) by (simp_all add: plain_def)
  show ?thesis
    by (simp add: crossLink_def split_clause [OF assms(1-4)]
        endpoint_token [OF c(1,2) assms(5)] endpoint_token [OF c(3,4) assms(6)]
        split: option.splits)
qed

lemma addCrossLinks_single:
  "CHR '';'' \<notin> set cl \<Longrightarrow> addCrossLinks alpha K w cl = crossLink alpha K w cl"
  by (simp add: addCrossLinks_def split_no_sep split: outcome.splits)


lemma plain_clause:
  "plain chain1 \<Longrightarrow> plain token1 \<Longrightarrow> plain chain2 \<Longrightarrow> plain token2 \<Longrightarrow>
   CHR '';'' \<notin> set (clause chain1 token1 chain2 token2)"
  by (simp add: plain_def clause_def)

subsection \<open>The example world\<close>

lemma w0_fields:
  "peptides w0 = Map.empty" "balls w0 = []" "threeWorld w0 = []" "nextID w0 = 0"
  "tempMatrix1 w0 = m0"
  by (simp_all add: w0_def DescWorld_def)

lemma w1_peptides:
  "peptides w1 =
     [''P1'' \<mapsto> [mk_residue K0 zero3 0 CHR ''A'' 0, mk_residue K0 zero3 1 CHR ''G'' 1]]"
  by (simp add: w1_def addPeptide_peptides chain_of_def w0_fields)

lemma w1_residues:
  "residueAt w1 ''P1'' (Suc 0) = Some (mk_residue K0 zero3 0 CHR ''A'' 0)"
  "residueAt w1 ''P1'' 2 = Some (mk_residue K0 zero3 1 CHR ''G'' 1)"
  "residueAt w1 ''P1'' 3 = None"
  "residueAt w1 ''P2'' (Suc 0) = None"
  by (simp_all add: residueAt_def w1_peptides numeral_2_eq_2 numeral_3_eq_3)

lemma mk_residue_sel:
  "r_id (mk_residue K startPos n c i) = n" "r_name (mk_residue K startPos n c i) = [c]"
  by (simp_all add: mk_residue_def)

lemma parseInt_examples: "parseInt ''1'' = 1" "parseInt ''2'' = 2" "parseInt ''3'' = 3"
  by (simp_all add: parseInt_def)

lemma getAlphaOnly_examples:
  "getAlphaOnly ''A1'' = ''A''" "getAlphaOnly ''G2'' = ''G''" "getAlphaOnly ''A2'' = ''A''"
  "getAlphaOnly ''1'' = []" "getAlphaOnly ''2'' = []"
  by (simp_all add: getAlphaOnly_def isAlpha_def)

subsection \<open>The claims about addCrossLinks\<close>

text \<open>
  C1: a clause \<open>A:X5-B:Y3\<close> (chain names free of separators, \<open>X\<close> and \<open>Y\<close> alphabetic,
  the indices non-empty runs of digits, the helper returning the alphabetic prefix of
  both tokens) creates two sockets and one ball, handed to the collaborator in this
  order with the ball also pushed to the ball list, when chain \<open>A\<close> has a residue at the
  1-based index with symbol \<open>X\<close> and chain \<open>B\<close> one with symbol \<open>Y\<close>; otherwise the world
  is left as it was. In both cases the callback returns, and \<open>addCrossLinks\<close> on the one
  clause does what the callback does.
\<close>

theorem crossLink_iff:
  assumes "plain A" and "plain B"
    and "\<forall>c \<in> set X. isAlpha c" and "\<forall>c \<in> set Y. isAlpha c"
    and "d1 \<noteq> []" and "\<forall>c \<in> set d1. isDigit c"
    and "d2 \<noteq> []" and "\<forall>c \<in> set d2. isDigit c"
    and "alpha (X @ d1) = X" and "alpha (Y @ d2) = Y"
  shows
    "(\<forall>r1 r2. residueAt w A (parseInt d1) = Some r1 \<and> r_name r1 = X
          \<and> residueAt w B (parseInt d2) = Some r2 \<and> r_name r2 = Y \<longrightarrow>
        (\<exists>w' s1 s2 b m.
            crossLink alpha K w (clause A (X @ d1) B (Y @ d2)) = Returned w'
          \<and> threeWorld w' = threeWorld w @ [AddSocket s1 m, AddSocket s2 m, AddBall b m]
          \<and> balls w' = balls w @ [b]
          \<and> peptides w' = peptides w
          \<and> s_residueId s1 = r_id r1 \<and> s_residueId s2 = r_id r2
          \<and> b_socket1Id b = s_id s1 \<and> b_socket2Id b = s_id s2))
   \<and> ((\<forall>r1 r2. \<not> (residueAt w A (parseInt d1) = Some r1 \<and> r_name r1 = X
          \<and> residueAt w B (parseInt d2) = Some r2 \<and> r_name r2 = Y)) \<longrightarrow>
        crossLink alpha K w (clause A (X @ d1) B (Y @ d2)) = Returned w)
   \<and> addCrossLinks alpha K w (clause A (X @ d1) B (Y @ d2))
       = crossLink alpha K w (clause A (X @ d1) B (Y @ d2))"
proof -
  have t1: "plain (X @ d1)" and t2: "plain (Y @ d2)"
    using assms by (simp_all add: plain_append alpha_plain digits_plain)
  have m1: "matchDigits (X @ d1) = Some d1" and m2: "matchDigits (Y @ d2) = Some d2"
    using assms by (simp_all add: matchDigits_token alpha_not_digit)
  note cl = crossLink_wellformed [OF assms(1) t1 assms(2) t2 m1 m2, of alpha K w]
  have ok: "\<exists>w' s1 s2 b m.
            crossLink alpha K w (clause A (X @ d1) B (Y @ d2)) = Returned w'
          \<and> threeWorld w' = threeWorld w @ [AddSocket s1 m, AddSocket s2 m, AddBall b m]
          \<and> balls w' = balls w @ [b]
          \<and> peptides w' = peptides w
          \<and> s_residueId s1 = r_id r1 \<and> s_residueId s2 = r_id r2
          \<and> b_socket1Id b = s_id s1 \<and> b_socket2Id b = s_id s2"
    if "residueAt w A (parseInt d1) = Some r1" "r_name r1 = X"
      "residueAt w B (parseInt d2) = Some r2" "r_name r2 = Y" for r1 r2
  proof -
    have "crossLink alpha K w (clause A (X @ d1) B (Y @ d2)) = Returned (link K r1 r2 w)"
      using that assms(9,10) by (simp add: cl)
    moreover have "threeWorld (link K r1 r2 w) = threeWorld w @
        [AddSocket (mk_socket K (nextID w) (r_id r1) TempMatrix1) (tempMatrix1 w),
         AddSocket (mk_socket K (nextID w + 1) (r_id r2) TempMatrix1) (tempMatrix1 w),
         AddBall (mk_ball K (nextID w)) (tempMatrix1 w)]"
      by (simp add: link_threeWorld link_events_def)
    moreover have "balls (link K r1 r2 w) = balls w @ [mk_ball K (nextID w)]"
      by (rule link_balls)
    moreover have "peptides (link K r1 r2 w) = peptides w"
      by (rule link_peptides)
    moreover have "s_residueId (mk_socket K (nextID w) (r_id r1) TempMatrix1) = r_id r1"
      "s_residueId (mk_socket K (nextID w + 1) (r_id r2) TempMatrix1) = r_id r2"
      "b_socket1Id (mk_ball K (nextID w)) = s_id (mk_socket K (nextID w) (r_id r1) TempMatrix1)"
      "b_socket2Id (mk_ball K (nextID w))
         = s_id (mk_socket K (nextID w + 1) (r_id r2) TempMatrix1)"
      by (simp_all add: mk_socket_def mk_ball_def)
    ultimately show ?thesis by blast
  qed
  have miss: "crossLink alpha K w (clause A (X @ d1) B (Y @ d2)) = Returned w"
    if "\<forall>r1 r2. \<not> (residueAt w A (parseInt d1) = Some r1 \<and> r_name r1 = X
          \<and> residueAt w B (parseInt d2) = Some r2 \<and> r_name r2 = Y)"
    using that assms(9,10) by (auto simp add: cl split: option.splits)
  have single: "addCrossLinks alpha K w (clause A (X @ d1) B (Y @ d2))
       = crossLink alpha K w (clause A (X @ d1) B (Y @ d2))"
    by (rule addCrossLinks_single) (rule plain_clause [OF assms(1) t1 assms(2) t2])
  from ok miss single show ?thesis by blast
qed

theorem crossLink_iff_witness:
  "(\<exists>w' s1 s2 b m.
       crossLink getAlphaOnly K0 w1 (clause ''P1'' ''A1'' ''P1'' ''G2'') = Returned w'
     \<and> threeWorld w' = threeWorld w1 @ [AddSocket s1 m, AddSocket s2 m, AddBall b m]
     \<and> balls w' = balls w1 @ [b]
     \<and> s_residueId s1 = 0 \<and> s_residueId s2 = 1
     \<and> b_socket1Id b = s_id s1 \<and> b_socket2Id b = s_id s2)
   \<and> crossLink getAlphaOnly K0 w1 (clause ''P1'' ''A1'' ''P1'' ''A2'') = Returned w1
   \<and> addCrossLinks getAlphaOnly K0 w1 (clause ''P1'' ''A1'' ''P1'' ''A2'') = Returned w1"
proof -
  have hit: "\<exists>w' s1 s2 b m.
       crossLink getAlphaOnly K0 w1 (clause ''P1'' (''A'' @ ''1'') ''P1'' (''G'' @ ''2'')) = Returned w'
     \<and> threeWorld w' = threeWorld w1 @ [AddSocket s1 m, AddSocket s2 m, AddBall b m]
     \<and> balls w' = balls w1 @ [b]
     \<and> peptides w' = peptides w1
     \<and> s_residueId s1 = r_id (mk_residue K0 zero3 0 CHR ''A'' 0)
     \<and> s_residueId s2 = r_id (mk_residue K0 zero3 1 CHR ''G'' 1)
     \<and> b_socket1Id b = s_id s1 \<and> b_socket2Id b = s_id s2"
    by (rule crossLink_iff [THEN conjunct1, rule_format])
      (simp_all add: plain_def isAlpha_def isDigit_def getAlphaOnly_def w1_residues
        parseInt_examples mk_residue_sel)
  have miss: "crossLink getAlphaOnly K0 w1 (clause ''P1'' (''A'' @ ''1'') ''P1'' (''A'' @ ''2''))
      = Returned w1"
    by (rule crossLink_iff [THEN conjunct2, THEN conjunct1, rule_format])
      (auto simp add: plain_def isAlpha_def isDigit_def getAlphaOnly_def w1_residues
        parseInt_examples mk_residue_sel)
  have single: "addCrossLinks getAlphaOnly K0 w1 (clause ''P1'' (''A'' @ ''1'') ''P1'' (''A'' @ ''2''))
      = crossLink getAlphaOnly K0 w1 (clause ''P1'' (''A'' @ ''1'') ''P1'' (''A'' @ ''2''))"
    by (rule crossLink_iff [THEN conjunct2, THEN conjunct2])
      (simp_all add: plain_def isAlpha_def isDigit_def getAlphaOnly_def)
  from hit miss single show ?thesis
    by (simp add: mk_residue_sel) blast
qed

text \<open>
  C10: \<open>addCrossLinks("")\<close> throws. The one clause \<open>""\<close> splits into the one endpoint \<open>""\<close>,
  which has no token after a colon: reading it raises a \<open>TypeError\<close> before anything is
  created.
\<close>

theorem addCrossLinks_empty_throws: "addCrossLinks alpha K w [] = Threw TypeError w"
  by (simp add: addCrossLinks_def crossLink_def endpoint_def)







lemma example_strings:
  "''P1:Ax-P1:G2;P1:A1-P1:G2'' = clause ''P1'' ''Ax'' ''P1'' ''G2'' @ CHR '';'' # clause ''P1'' ''A1'' ''P1'' ''G2''"
  "''P1:G1-P1:G2;P1:A1-P1:G2'' = clause ''P1'' ''G1'' ''P1'' ''G2'' @ CHR '';'' # clause ''P1'' ''A1'' ''P1'' ''G2''"
  "''P1:A1;P1:A1-P1:G2'' = (''P1'' @ CHR '':'' # ''A1'') @ CHR '';'' # clause ''P1'' ''A1'' ''P1'' ''G2''"
  "''P1:A1-P1:G2'' = clause ''P1'' ''A1'' ''P1'' ''G2''"
  "''P1:A1-P1:2'' = clause ''P1'' ''A1'' ''P1'' ''2''"
  "''P1:1-P1:1'' = clause ''P1'' ''1'' ''P1'' ''1''"
  "''P2:1-P2:1'' = clause ''P2'' ''1'' ''P2'' ''1''"
  by (simp_all add: clause_def)

lemma example_plain:
  "plain ''P1''" "plain ''P2''" "plain ''A1''" "plain ''G1''" "plain ''G2''" "plain ''Ax''"
  "plain ''1''" "plain ''2''"
  by (simp_all add: plain_def)

lemma example_digits:
  "matchDigits ''A1'' = Some ''1''" "matchDigits ''G1'' = Some ''1''"
  "matchDigits ''G2'' = Some ''2''" "matchDigits ''1'' = Some ''1''"
  "matchDigits ''2'' = Some ''2''" "\<forall>c \<in> set ''Ax''. \<not> isDigit c"
  "getAlphaOnly ''G1'' = ''G''"
  by (simp_all add: matchDigits_def isDigit_def getAlphaOnly_def isAlpha_def)

lemma example_link:
  "crossLink getAlphaOnly K0 w1 (clause ''P1'' ''A1'' ''P1'' ''G2'') =
     Returned (link K0 (mk_residue K0 zero3 0 CHR ''A'' 0) (mk_residue K0 zero3 1 CHR ''G'' 1) w1)"
  by (simp add: crossLink_wellformed [OF example_plain(1,3,1,5) example_digits(1,3)]
      parseInt_examples w1_residues getAlphaOnly_examples mk_residue_sel)

lemma example_single:
  "addCrossLinks getAlphaOnly K0 w1 ''P1:A1-P1:G2'' =
     Returned (link K0 (mk_residue K0 zero3 0 CHR ''A'' 0) (mk_residue K0 zero3 1 CHR ''G'' 1) w1)"
  by (simp only: example_strings(4) example_link
      addCrossLinks_single [OF plain_clause [OF example_plain(1,3,1,5)]])



lemma w1_nextID: "nextID w1 = 5"
  by (simp add: w1_def addPeptide_nextID w0_fields)

lemma w2_peptides:
  "peptides w2 =
     [''P1'' \<mapsto> [mk_residue K0 zero3 0 CHR ''A'' 0, mk_residue K0 zero3 1 CHR ''G'' 1],
      ''P2'' \<mapsto> [mk_residue K0 zero3 5 CHR ''G'' 0, mk_residue K0 zero3 6 CHR ''A'' 1]]"
  by (simp add: w2_def addPeptide_peptides chain_of_def w1_peptides w1_nextID)

lemma w2_residues:
  "residueAt w2 ''P1'' (Suc 0) = Some (mk_residue K0 zero3 0 CHR ''A'' 0)"
  "residueAt w2 ''P2'' (Suc 0) = Some (mk_residue K0 zero3 5 CHR ''G'' 0)"
  by (simp_all add: residueAt_def w2_peptides)

text \<open>
  C5 does not hold of the code. In the world with the chain \<open>P1 = AG\<close>, the clause
  \<open>P1:A1-P1:2\<close> names residue 2 of \<open>P1\<close>, which exists, by its index alone; the symbol
  extracted from the token \<open>2\<close> is the empty string, the comparison with the residue's
  symbol \<open>G\<close> is still made, and the clause creates nothing, while \<open>P1:A1-P1:G2\<close> creates
  the joint. This does not depend on what the helper returns for a token without letters:
  whatever it returns for \<open>1\<close>, one of the clauses \<open>P1:1-P1:1\<close> and \<open>P2:1-P2:1\<close>, whose
  residues carry different symbols, creates nothing.
\<close>

theorem digits_only_token_still_compared:
  "residueAt w1 ''P1'' 2 = Some (mk_residue K0 zero3 1 CHR ''G'' 1)
   \<and> addCrossLinks getAlphaOnly K0 w1 ''P1:A1-P1:2'' = Returned w1
   \<and> addCrossLinks getAlphaOnly K0 w1 ''P1:A1-P1:G2'' =
       Returned (link K0 (mk_residue K0 zero3 0 CHR ''A'' 0) (mk_residue K0 zero3 1 CHR ''G'' 1) w1)
   \<and> (\<forall>alpha. addCrossLinks alpha K0 w2 ''P1:1-P1:1'' = Returned w2
            \<or> addCrossLinks alpha K0 w2 ''P2:1-P2:1'' = Returned w2)"
proof -
  have "crossLink getAlphaOnly K0 w1 (clause ''P1'' ''A1'' ''P1'' ''2'') = Returned w1"
    by (simp add: crossLink_wellformed [OF example_plain(1,3,1,8) example_digits(1,5)]
        parseInt_examples w1_residues getAlphaOnly_examples mk_residue_sel)
  then have a: "addCrossLinks getAlphaOnly K0 w1 ''P1:A1-P1:2'' = Returned w1"
    by (simp only: example_strings(5)
        addCrossLinks_single [OF plain_clause [OF example_plain(1,3,1,8)]])
  have b: "addCrossLinks alpha K0 w2 ''P1:1-P1:1'' = Returned w2
        \<or> addCrossLinks alpha K0 w2 ''P2:1-P2:1'' = Returned w2" for alpha
  proof (cases "alpha ''1'' = ''A''")
    case True
    have "crossLink alpha K0 w2 (clause ''P2'' ''1'' ''P2'' ''1'') = Returned w2"
      by (simp add: crossLink_wellformed [OF example_plain(2,7,2,7) example_digits(4,4)]
          parseInt_examples w2_residues mk_residue_sel True)
    then have "addCrossLinks alpha K0 w2 ''P2:1-P2:1'' = Returned w2"
      by (simp only: example_strings(7)
          addCrossLinks_single [OF plain_clause [OF example_plain(2,7,2,7)]])
    then show ?thesis ..
  next
    case False
    have "crossLink alpha K0 w2 (clause ''P1'' ''1'' ''P1'' ''1'') = Returned w2"
      by (simp add: crossLink_wellformed [OF example_plain(1,7,1,7) example_digits(4,4)]
          parseInt_examples w2_residues mk_residue_sel False)
    then have "addCrossLinks alpha K0 w2 ''P1:1-P1:1'' = Returned w2"
      by (simp only: example_strings(6)
          addCrossLinks_single [OF plain_clause [OF example_plain(1,7,1,7)]])
    then show ?thesis ..
  qed
  from a b example_single w1_residues(2) show ?thesis by blast
qed

subsection \<open>The registry after addPeptide\<close>







subsection \<open>The calls of one connection\<close>

lemma length_joint_events: "length (joint_events K startPos t n p r) = 3"
  by (simp add: joint_events_def)

lemma window_log_tail:
  "j < length cs \<Longrightarrow>
   take 4 (drop (4 * j) (log_tail K startPos t n i p cs)) =
     AddResidue (chain_tail K startPos n i cs ! j) #
     joint_events K startPos t (n + 4 * j + 1)
       ((p # chain_tail K startPos n i cs) ! j) (chain_tail K startPos n i cs ! j)"
proof (induction cs arbitrary: n i p j)
  case Nil
  then show ?case by simp
next
  case (Cons c cs)
  show ?case
  proof (cases j)
    case 0
    then show ?thesis by (simp add: length_joint_events)
  next
    case (Suc k)
    with Cons.prems have k: "k < length cs" by simp
    have "drop (4 * Suc k) (log_tail K startPos t n i p (c # cs)) =
        drop (4 * k) (log_tail K startPos t (n + 4) (Suc i) (mk_residue K startPos n c i) cs)"
      by (simp add: drop_Cons' length_joint_events)
    with Cons.IH [OF k, of "n + 4" "Suc i" "mk_residue K startPos n c i"] Suc show ?thesis
      by (simp add: add.assoc)
  qed
qed

lemma window_log_of:
  "Suc i < length cs \<Longrightarrow>
   take 4 (drop (4 * i + 1) (log_of K startPos t n cs)) =
     AddResidue (chain_of K startPos n cs ! Suc i) #
     joint_events K startPos t (n + 4 * i + 2)
       (chain_of K startPos n cs ! i) (chain_of K startPos n cs ! Suc i)"
proof (cases cs)
  case Nil
  assume "Suc i < length cs"
  with Nil show ?thesis by simp
next
  case (Cons c cs')
  assume "Suc i < length cs"
  with Cons have i: "i < length cs'" by simp
  from window_log_tail [OF i, of K startPos t "n + 1" 1 "mk_residue K startPos n c 0"] Cons
  show ?thesis
    by (simp add: log_of_def chain_of_def add.assoc)
qed

text \<open>
  C6 fails as stated: the three x coordinates are computed in binary64 arithmetic. From
  the start point \<open>x = 10^17\<close> the second and third residue of \<open>AGC\<close> lie at \<open>10^17\<close> and
  \<open>10^17 + 16\<close>, and the step of the third residue places both sockets and the ball at
  \<open>10^17\<close>: the ball is 8 off the mean of the two residues, and the sockets are not on
  either side of it.
\<close>

theorem connection_off_midpoint:
  "map (\<lambda>e. vx (call_position e))
     (take 4 (drop 5 (new_calls w0 (addPeptide K0 ''P1'' ''AGC'' far_start w0)))) =
     [Finite 100000000000000016, Finite 100000000000000000, Finite 100000000000000000,
      Finite 100000000000000000]
   \<and> map_option (map (\<lambda>r. vx (r_pos r)))
       (peptides (addPeptide K0 ''P1'' ''AGC'' far_start w0) ''P1'') =
     Some [Finite 100000000000000000, Finite 100000000000000000, Finite 100000000000000016]"
  by (simp add: new_calls_addPeptide addPeptide_peptides log_of_def chain_of_def joint_events_def
      socket1_x_def socket2_x_def ball_x_def mk_residue_def setX_def far_start_def K0_def
      double_eval)

text \<open>
  C6, as the code has it: for consecutive residues \<open>i\<close> and \<open>i + 1\<close> of the chain, the loop
  step of residue \<open>i + 1\<close> hands over, in this order, the residue, a socket owned by
  residue \<open>i\<close>, a socket owned by residue \<open>i + 1\<close> and a ball on these two sockets. When
  they are handed over, the first socket is at \<open>prevResidue.x + residueRadius +
  socketLength / 2\<close>, the second at that \<open>+ socketLength + ballRadius * 2\<close> and the ball at
  the first socket's x \<open>+ socketLength / 2 + ballRadius\<close>, each operation rounded to
  binary64, and all three have the y and z of the start point. Where the values are
  finite, none of these operations rounds and the two residues are the exact spacing
  \<open>(socketLength + residueRadius + ballRadius) * 2\<close> apart, the ball is at the mean of the
  two residues' x coordinates and the sockets lie \<open>socketLength / 2 + ballRadius\<close> to its
  left and to its right.
\<close>

theorem connection_symmetric:
  "Suc i < length sequence \<longrightarrow>
     (\<exists>chain s1 m1 s2 m2 b mb.
         peptides (addPeptide K name sequence startPos w) name = Some chain
       \<and> take 4 (drop (4 * i + 1) (new_calls w (addPeptide K name sequence startPos w)))
           = [AddResidue (chain ! Suc i), AddSocket s1 m1, AddSocket s2 m2, AddBall b mb]
       \<and> s_residueId s1 = r_id (chain ! i) \<and> s_residueId s2 = r_id (chain ! Suc i)
       \<and> b_socket1Id b = s_id s1 \<and> b_socket2Id b = s_id s2
       \<and> position m1 =
           \<lparr>vx = dadd (dadd (vx (r_pos (chain ! i))) (residueRadius K))
                   (ddiv (socketLength K) (Finite 2)),
            vy = vy startPos, vz = vz startPos\<rparr>
       \<and> position m2 =
           \<lparr>vx = dadd (dadd (vx (position m1)) (socketLength K)) (dmul (ballRadius K) (Finite 2)),
            vy = vy startPos, vz = vz startPos\<rparr>
       \<and> position mb =
           \<lparr>vx = dadd (dadd (vx (position m1)) (ddiv (socketLength K) (Finite 2))) (ballRadius K),
            vy = vy startPos, vz = vz startPos\<rparr>
       \<and> (\<forall>l r bl a a'.
            socketLength K = Finite l \<and> residueRadius K = Finite r \<and> ballRadius K = Finite bl
            \<and> vx (r_pos (chain ! i)) = Finite a \<and> vx (r_pos (chain ! Suc i)) = Finite a'
            \<and> a' = a + (l + r + bl) * 2
            \<and> exact (a + r) \<and> exact (l / 2) \<and> exact (a + r + l / 2)
            \<and> exact (a + r + l / 2 + l) \<and> exact (bl * 2) \<and> exact (a + r + l / 2 + l + bl * 2)
            \<and> exact (a + r + l / 2 + l / 2) \<and> exact (a + r + l / 2 + l / 2 + bl)
            \<longrightarrow>
              vx (position mb) = Finite ((a + a') / 2)
            \<and> vx (position m1) = Finite ((a + a') / 2 - (l / 2 + bl))
            \<and> vx (position m2) = Finite ((a + a') / 2 + (l / 2 + bl))))"
proof
  assume i: "Suc i < length sequence"
  then have i': "i < length sequence" by simp
  let ?chain = "chain_of K startPos (nextID w) sequence"
  let ?p = "?chain ! i"
  let ?n = "nextID w + 4 * i + 2"
  let ?t = "block (tempMatrix1 w)"
  let ?s1 = "mk_socket K ?n (r_id ?p) TempMultiMatrix1"
  let ?m1 = "\<lparr>position = setX startPos (socket1_x K ?p), block = Times ?t QuarterTurn\<rparr>"
  let ?s2 = "mk_socket K (?n + 1) (r_id (?chain ! Suc i)) TempMultiMatrix1"
  let ?m2 = "\<lparr>position = setX startPos (socket2_x K ?p), block = Times ?t QuarterTurn\<rparr>"
  let ?b = "mk_ball K ?n"
  let ?mb = "\<lparr>position = setX startPos (ball_x K ?p), block = ?t\<rparr>"
  have a: "peptides (addPeptide K name sequence startPos w) name = Some ?chain"
    by (simp add: addPeptide_peptides)
  have b: "take 4 (drop (4 * i + 1) (new_calls w (addPeptide K name sequence startPos w)))
      = [AddResidue (?chain ! Suc i), AddSocket ?s1 ?m1, AddSocket ?s2 ?m2, AddBall ?b ?mb]"
    by (simp only: new_calls_addPeptide window_log_of [OF i] joint_events_def)
  have c: "s_residueId ?s1 = r_id ?p" "s_residueId ?s2 = r_id (?chain ! Suc i)"
    "b_socket1Id ?b = s_id ?s1" "b_socket2Id ?b = s_id ?s2"
    by (simp_all add: mk_socket_def mk_ball_def)
  have x1: "vx (position ?m1) = socket1_x K ?p" and x2: "vx (position ?m2) = socket2_x K ?p"
    and xb: "vx (position ?mb) = ball_x K ?p"
    by (simp_all add: setX_def)
  have d: "position ?m1 =
           \<lparr>vx = dadd (dadd (vx (r_pos ?p)) (residueRadius K)) (ddiv (socketLength K) (Finite 2)),
            vy = vy startPos, vz = vz startPos\<rparr>"
    "position ?m2 =
           \<lparr>vx = dadd (dadd (vx (position ?m1)) (socketLength K)) (dmul (ballRadius K) (Finite 2)),
            vy = vy startPos, vz = vz startPos\<rparr>"
    "position ?mb =
           \<lparr>vx = dadd (dadd (vx (position ?m1)) (ddiv (socketLength K) (Finite 2))) (ballRadius K),
            vy = vy startPos, vz = vz startPos\<rparr>"
    by (simp_all add: setX_def socket1_x_def socket2_x_def ball_x_def)
  have e: "vx (position ?mb) = Finite ((a + a') / 2)
            \<and> vx (position ?m1) = Finite ((a + a') / 2 - (l / 2 + bl))
            \<and> vx (position ?m2) = Finite ((a + a') / 2 + (l / 2 + bl))"
    if K: "socketLength K = Finite l" "residueRadius K = Finite r" "ballRadius K = Finite bl"
      "vx (r_pos ?p) = Finite a"
      and a': "a' = a + (l + r + bl) * 2"
      and ex: "exact (a + r)" "exact (l / 2)" "exact (a + r + l / 2)"
        "exact (a + r + l / 2 + l)" "exact (bl * 2)" "exact (a + r + l / 2 + l + bl * 2)"
        "exact (a + r + l / 2 + l / 2)" "exact (a + r + l / 2 + l / 2 + bl)"
    for l r bl a a'
  proof -
    note s = exact_sum [OF ex(1)] exact_half [OF ex(2)] exact_sum [OF ex(3)]
      exact_sum [OF ex(4)] exact_product [OF ex(5)] exact_sum [OF ex(6)]
      exact_sum [OF ex(7)] exact_sum [OF ex(8)]
    have 1: "socket1_x K ?p = Finite (a + r + l / 2)"
      by (simp only: socket1_x_def K s)
    have 2: "socket2_x K ?p = Finite (a + r + l / 2 + l + bl * 2)"
      by (simp only: socket2_x_def 1 K s)
    have 3: "ball_x K ?p = Finite (a + r + l / 2 + l / 2 + bl)"
      by (simp only: ball_x_def 1 K s)
    have "ball_x K ?p = Finite ((a + a') / 2)"
      "socket1_x K ?p = Finite ((a + a') / 2 - (l / 2 + bl))"
      "socket2_x K ?p = Finite ((a + a') / 2 + (l / 2 + bl))"
      by (simp_all add: 1 2 3 a' field_simps)
    then show ?thesis
      by (simp add: setX_def)
  qed
  have f: "\<forall>l r bl a a'.
            socketLength K = Finite l \<and> residueRadius K = Finite r \<and> ballRadius K = Finite bl
            \<and> vx (r_pos ?p) = Finite a \<and> vx (r_pos (?chain ! Suc i)) = Finite a'
            \<and> a' = a + (l + r + bl) * 2
            \<and> exact (a + r) \<and> exact (l / 2) \<and> exact (a + r + l / 2)
            \<and> exact (a + r + l / 2 + l) \<and> exact (bl * 2) \<and> exact (a + r + l / 2 + l + bl * 2)
            \<and> exact (a + r + l / 2 + l / 2) \<and> exact (a + r + l / 2 + l / 2 + bl)
            \<longrightarrow>
              vx (position ?mb) = Finite ((a + a') / 2)
            \<and> vx (position ?m1) = Finite ((a + a') / 2 - (l / 2 + bl))
            \<and> vx (position ?m2) = Finite ((a + a') / 2 + (l / 2 + bl))"
    using e by blast
  show "\<exists>chain s1 m1 s2 m2 b mb.
         peptides (addPeptide K name sequence startPos w) name = Some chain
       \<and> take 4 (drop (4 * i + 1) (new_calls w (addPeptide K name sequence startPos w)))
           = [AddResidue (chain ! Suc i), AddSocket s1 m1, AddSocket s2 m2, AddBall b mb]
       \<and> s_residueId s1 = r_id (chain ! i) \<and> s_residueId s2 = r_id (chain ! Suc i)
       \<and> b_socket1Id b = s_id s1 \<and> b_socket2Id b = s_id s2
       \<and> position m1 =
           \<lparr>vx = dadd (dadd (vx (r_pos (chain ! i))) (residueRadius K))
                   (ddiv (socketLength K) (Finite 2)),
            vy = vy startPos, vz = vz startPos\<rparr>
       \<and> position m2 =
           \<lparr>vx = dadd (dadd (vx (position m1)) (socketLength K)) (dmul (ballRadius K) (Finite 2)),
            vy = vy startPos, vz = vz startPos\<rparr>
       \<and> position mb =
           \<lparr>vx = dadd (dadd (vx (position m1)) (ddiv (socketLength K) (Finite 2))) (ballRadius K),
            vy = vy startPos, vz = vz startPos\<rparr>
       \<and> (\<forall>l r bl a a'.
            socketLength K = Finite l \<and> residueRadius K = Finite r \<and> ballRadius K = Finite bl
            \<and> vx (r_pos (chain ! i)) = Finite a \<and> vx (r_pos (chain ! Suc i)) = Finite a'
            \<and> a' = a + (l + r + bl) * 2
            \<and> exact (a + r) \<and> exact (l / 2) \<and> exact (a + r + l / 2)
            \<and> exact (a + r + l / 2 + l) \<and> exact (bl * 2) \<and> exact (a + r + l / 2 + l + bl * 2)
            \<and> exact (a + r + l / 2 + l / 2) \<and> exact (a + r + l / 2 + l / 2 + bl)
            \<longrightarrow>
              vx (position mb) = Finite ((a + a') / 2)
            \<and> vx (position m1) = Finite ((a + a') / 2 - (l / 2 + bl))
            \<and> vx (position m2) = Finite ((a + a') / 2 + (l / 2 + bl)))"
    by (rule exI [of _ ?chain], rule exI [of _ ?s1], rule exI [of _ ?m1], rule exI [of _ ?s2],
        rule exI [of _ ?m2], rule exI [of _ ?b], rule exI [of _ ?mb])
      (intro conjI a b c d f)
qed

theorem connection_symmetric_witness:
  "\<exists>chain s1 m1 s2 m2 b mb.
       peptides (addPeptide K0 ''P1'' ''AGC'' zero3 w0) ''P1'' = Some chain
     \<and> take 4 (drop 5 (new_calls w0 (addPeptide K0 ''P1'' ''AGC'' zero3 w0)))
         = [AddResidue (chain ! 2), AddSocket s1 m1, AddSocket s2 m2, AddBall b mb]
     \<and> s_residueId s1 = r_id (chain ! 1) \<and> s_residueId s2 = r_id (chain ! 2)
     \<and> vx (r_pos (chain ! 1)) = Finite 7 \<and> vx (r_pos (chain ! 2)) = Finite 14
     \<and> vx (position mb) = Finite (21 / 2)
     \<and> vx (position m1) = Finite 9
     \<and> vx (position m2) = Finite 12"
proof -
  have i: "Suc 1 < length ''AGC''" by simp
  from connection_symmetric [of 1 "''AGC''" K0 "''P1''" zero3 w0, rule_format, OF i]
  obtain chain s1 m1 s2 m2 b mb where
    c: "peptides (addPeptide K0 ''P1'' ''AGC'' zero3 w0) ''P1'' = Some chain"
    and t: "take 4 (drop (4 * 1 + 1) (new_calls w0 (addPeptide K0 ''P1'' ''AGC'' zero3 w0)))
           = [AddResidue (chain ! Suc 1), AddSocket s1 m1, AddSocket s2 m2, AddBall b mb]"
    and o: "s_residueId s1 = r_id (chain ! 1)" "s_residueId s2 = r_id (chain ! Suc 1)"
    and h: "\<forall>l r bl a a'.
            socketLength K0 = Finite l \<and> residueRadius K0 = Finite r \<and> ballRadius K0 = Finite bl
            \<and> vx (r_pos (chain ! 1)) = Finite a \<and> vx (r_pos (chain ! Suc 1)) = Finite a'
            \<and> a' = a + (l + r + bl) * 2
            \<and> exact (a + r) \<and> exact (l / 2) \<and> exact (a + r + l / 2)
            \<and> exact (a + r + l / 2 + l) \<and> exact (bl * 2) \<and> exact (a + r + l / 2 + l + bl * 2)
            \<and> exact (a + r + l / 2 + l / 2) \<and> exact (a + r + l / 2 + l / 2 + bl)
            \<longrightarrow>
              vx (position mb) = Finite ((a + a') / 2)
            \<and> vx (position m1) = Finite ((a + a') / 2 - (l / 2 + bl))
            \<and> vx (position m2) = Finite ((a + a') / 2 + (l / 2 + bl))"
    by blast
  from c have chain: "chain = chain_of K0 zero3 (nextID w0) ''AGC''"
    by (simp add: addPeptide_peptides)
  have x: "vx (r_pos (chain ! 1)) = Finite 7" "vx (r_pos (chain ! Suc 1)) = Finite 14"
    by (simp_all add: chain chain_of_pos K0_def zero3_def double_eval)
  have "socketLength K0 = Finite 2 \<and> residueRadius K0 = Finite 1 \<and> ballRadius K0 = Finite (1 / 2)
      \<and> vx (r_pos (chain ! 1)) = Finite 7 \<and> vx (r_pos (chain ! Suc 1)) = Finite 14
      \<and> (14::real) = 7 + (2 + 1 + 1 / 2) * 2
      \<and> exact (7 + 1) \<and> exact (2 / 2) \<and> exact (7 + 1 + 2 / 2)
      \<and> exact (7 + 1 + 2 / 2 + 2) \<and> exact (1 / 2 * 2) \<and> exact (7 + 1 + 2 / 2 + 2 + 1 / 2 * 2)
      \<and> exact (7 + 1 + 2 / 2 + 2 / 2) \<and> exact (7 + 1 + 2 / 2 + 2 / 2 + 1 / 2)"
    using x by (simp add: K0_def double_eval)
  from h [rule_format, OF this]
  have "vx (position mb) = Finite (21 / 2)" "vx (position m1) = Finite 9"
    "vx (position m2) = Finite 12"
    by simp_all
  with c t o x show ?thesis
    by (simp add: numeral_2_eq_2)
qed

subsection \<open>The invariant\<close>

lemma residue_ids_append: "residue_ids (xs @ ys) = residue_ids xs @ residue_ids ys"
  by (induction xs rule: residue_ids.induct) simp_all

lemma set_residue_ids_rev: "set (residue_ids (rev xs)) = set (residue_ids xs)"
  by (induction xs rule: residue_ids.induct) (auto simp add: residue_ids_append)

lemma logged_balls_append: "logged_balls (xs @ ys) = logged_balls xs @ logged_balls ys"
  by (induction xs rule: logged_balls.induct) simp_all

lemma well_referenced_suffix: "well_referenced (xs @ ys) \<Longrightarrow> well_referenced ys"
  by (induction xs rule: well_referenced.induct) simp_all

lemma well_referenced_take: "well_referenced (rev es) \<Longrightarrow> well_referenced (rev (take n es))"
proof -
  assume "well_referenced (rev es)"
  then have "well_referenced (rev (drop n es) @ rev (take n es))"
    by (simp flip: rev_append)
  then show ?thesis by (rule well_referenced_suffix)
qed

lemma well_referenced_joint:
  "well_referenced (rev old) \<Longrightarrow> r_id p \<in> set (residue_ids old) \<Longrightarrow>
   r_id r \<in> set (residue_ids old) \<Longrightarrow>
   well_referenced (rev (old @ joint_events K startPos t n p r))"
  by (simp add: joint_events_def mk_socket_def mk_ball_def set_residue_ids_rev)

lemma residue_ids_joint: "residue_ids (joint_events K startPos t n p r) = []"
  by (simp add: joint_events_def)

lemma logged_balls_joint: "logged_balls (joint_events K startPos t n p r) = [mk_ball K n]"
  by (simp add: joint_events_def)

lemma well_referenced_log_tail:
  "well_referenced (rev old) \<Longrightarrow> r_id p \<in> set (residue_ids old) \<Longrightarrow>
   well_referenced (rev (old @ log_tail K startPos t n i p cs))"
proof (induction cs arbitrary: old n i p)
  case Nil
  then show ?case by simp
next
  case (Cons c cs)
  let ?r = "mk_residue K startPos n c i"
  let ?old = "(old @ [AddResidue ?r]) @ joint_events K startPos t (n + 1) p ?r"
  have "well_referenced (rev (old @ [AddResidue ?r]))"
    using Cons.prems(1) by simp
  then have 1: "well_referenced (rev ?old)"
    by (rule well_referenced_joint) (simp_all add: residue_ids_append Cons.prems(2))
  have 2: "r_id ?r \<in> set (residue_ids ?old)"
    by (simp add: residue_ids_append)
  from Cons.IH [OF 1 2, of "n + 4" "Suc i"] show ?case by simp
qed

lemma residue_ids_log_tail:
  "residue_ids (log_tail K startPos t n i p cs) = map r_id (chain_tail K startPos n i cs)"
  by (induction cs arbitrary: n i p) (simp_all add: residue_ids_append residue_ids_joint)

lemma logged_balls_log_tail: "logged_balls (log_tail K startPos t n i p cs) = balls_tail K n cs"
  by (induction cs arbitrary: n i p) (simp_all add: logged_balls_append logged_balls_joint)

lemma well_referenced_log_of:
  "well_referenced (rev old) \<Longrightarrow> well_referenced (rev (old @ log_of K startPos t n cs))"
proof (cases cs)
  case Nil
  assume "well_referenced (rev old)"
  with Nil show ?thesis by (simp add: log_of_def)
next
  case (Cons c cs')
  assume "well_referenced (rev old)"
  then have "well_referenced (rev (old @ [AddResidue (mk_residue K startPos n c 0)]))"
    by simp
  from well_referenced_log_tail [OF this, of "mk_residue K startPos n c 0" K startPos t "n + 1" 1 cs']
  show ?thesis
    using Cons by (simp add: log_of_def residue_ids_append)
qed

lemma residue_ids_log_of: "residue_ids (log_of K startPos t n cs) = map r_id (chain_of K startPos n cs)"
  by (cases cs) (simp_all add: log_of_def chain_of_def residue_ids_log_tail)

lemma logged_balls_log_of: "logged_balls (log_of K startPos t n cs) = balls_of K n cs"
  by (cases cs) (simp_all add: log_of_def balls_of_def logged_balls_log_tail)

lemma inv_addPeptide: "inv w \<Longrightarrow> inv (addPeptide K name cs startPos w)"
proof -
  assume w: "inv w"
  from w have "well_referenced (rev (threeWorld w))"
    by (simp add: inv_def)
  then have 1: "well_referenced (rev (threeWorld (addPeptide K name cs startPos w)))"
    by (simp only: addPeptide_threeWorld well_referenced_log_of)
  have 2: "registered_logged (addPeptide K name cs startPos w)"
    using w
    by (auto simp add: inv_def registered_logged_def addPeptide_peptides addPeptide_threeWorld
        residue_ids_append residue_ids_log_of split: if_splits)
  have 3: "balls (addPeptide K name cs startPos w)
      = logged_balls (threeWorld (addPeptide K name cs startPos w))"
    using w
    by (simp add: inv_def addPeptide_balls addPeptide_threeWorld logged_balls_append
        logged_balls_log_of)
  from 1 2 3 show ?thesis by (simp add: inv_def)
qed

lemma index_in_set: "index xs i = Some x \<Longrightarrow> x \<in> set xs"
  by (induction xs i rule: index.induct) auto

lemma endpoint_registered:
  "endpoint alpha w a = Inr (Some r) \<Longrightarrow>
   \<exists>name chain. peptides w name = Some chain \<and> r \<in> set chain"
  by (auto simp add: endpoint_def residueAt_def Let_def
      split: option.splits if_splits dest: index_in_set)

lemma inv_link:
  "inv w \<Longrightarrow> r_id r1 \<in> set (residue_ids (threeWorld w)) \<Longrightarrow>
   r_id r2 \<in> set (residue_ids (threeWorld w)) \<Longrightarrow> inv (link K r1 r2 w)"
  by (simp add: inv_def registered_logged_def link_threeWorld link_balls link_peptides
      link_events_def mk_socket_def mk_ball_def set_residue_ids_rev residue_ids_append
      logged_balls_append)

lemma inv_crossLink: "inv w \<Longrightarrow> inv (world_of (crossLink alpha K w cl))"
proof -
  assume w: "inv w"
  have reg: "r_id r \<in> set (residue_ids (threeWorld w))" if "endpoint alpha w a = Inr (Some r)" for a r
    using endpoint_registered [OF that] w by (auto simp add: inv_def registered_logged_def)
  show ?thesis
    using w by (auto simp add: crossLink_def Let_def inv_link reg split: sum.splits option.splits)
qed

lemma inv_forEach: "inv w \<Longrightarrow> inv (world_of (forEach_crossLink alpha K w cls))"
proof (induction cls arbitrary: w)
  case Nil
  then show ?case by simp
next
  case (Cons cl cls)
  from inv_crossLink [OF Cons.prems, of alpha K cl] show ?case
    by (cases "crossLink alpha K w cl") (simp_all add: Cons.IH)
qed

lemma inv_perform: "inv w \<Longrightarrow> inv (perform alpha K w c)"
  by (cases c) (simp_all add: inv_addPeptide addCrossLinks_def inv_forEach)

lemma inv_run: "inv w \<Longrightarrow> inv (run alpha K w calls)"
  unfolding run_def by (induction calls arbitrary: w) (simp_all add: inv_perform)

lemma inv_DescWorld: "inv (DescWorld m1 m2 mm)"
  by (simp add: inv_def registered_logged_def DescWorld_def)

text \<open>
  C7: start from a fresh \<open>DescWorld\<close> and perform any sequence of \<open>addPeptide\<close> and
  \<open>addCrossLinks\<close> calls, with any helper and any constants, going on after a throw. At
  every moment (every prefix of the log of calls received by the collaborator) each ball
  comes right after the two sockets it references, \<open>socket1Id\<close> naming the first and
  \<open>socket2Id\<close> the second, and each socket is owned by a residue handed over before it.
  The internal ball list holds the balls handed over, in order.
\<close>

theorem references_never_dangle:
  "well_referenced (rev (take n (threeWorld (run alpha K (DescWorld m1 m2 mm) calls))))
   \<and> balls (run alpha K (DescWorld m1 m2 mm) calls)
       = logged_balls (threeWorld (run alpha K (DescWorld m1 m2 mm) calls))"
proof -
  have "inv (run alpha K (DescWorld m1 m2 mm) calls)"
    by (rule inv_run) (rule inv_DescWorld)
  then show ?thesis
    by (simp add: inv_def well_referenced_take)
qed

end
